theory Spec2Isabelle
  imports Complex_Main
begin

section \<open>The value graph seen through reflection\<close>

text \<open>
  The validation engine of \<^verbatim>\<open>remoteconfig.go\<close> walks a decoded configuration with
  Go's \<^verbatim>\<open>reflect\<close> package. The model below is the part of \<^verbatim>\<open>reflect\<close> the engine
  reads: the kind of a value, its type name, its elements, and whether it is nil.

  A Go \<^verbatim>\<open>error\<close> is modelled by its message: \<open>None\<close> is the nil error, \<open>Some m\<close>
  an error whose \<^verbatim>\<open>Error()\<close> is \<open>m\<close>. Strings are byte strings.
\<close>

type_synonym error = "string option"

text \<open>
  The kinds of \<^verbatim>\<open>reflect.Kind\<close>. The sized integer, float and complex kinds are merged
  into one kind each: no line of the engine tells them apart.
\<close>

datatype Kind =
    reflect_Bool | reflect_Int | reflect_Uint | reflect_Float | reflect_Complex
  | reflect_Array | reflect_Chan | reflect_Func | reflect_Interface | reflect_Map
  | reflect_Ptr | reflect_Slice | reflect_String | reflect_Struct | reflect_UnsafePointer

text \<open>
  What a call of the user's \<^verbatim>\<open>Validate()\<close> method does at a given receiver: it returns
  an error (possibly nil), or it panics (a value receiver called through a nil pointer,
  for instance).
\<close>

datatype call = Returns error | Panics

text \<open>
  \<^verbatim>\<open>reflect.StructField\<close>, the declaration of a field: its name, its package path
  (empty exactly for an exported field) and its tag, the raw string written after the
  field in the source.
\<close>

record StructField =
  Name :: string
  PkgPath :: string
  Tag :: string

text \<open>
  The type of a value of kind String: the predeclared type \<^verbatim>\<open>string\<close>, or a defined type
  (\<^verbatim>\<open>type Host string\<close>) with its name. \<open>Type_Name\<close> is \<^verbatim>\<open>Type().Name()\<close>.
\<close>

datatype string_type = Predeclared | Defined string

fun Type_Name :: "string_type \<Rightarrow> string" where
  "Type_Name Predeclared = ''string''"
| "Type_Name (Defined n) = n"

text \<open>
  A floating-point number as far as the engine can tell numbers apart: not a number,
  an infinity with its sign, or a number.
\<close>

datatype float = NaN | Infinite bool | Finite real

text \<open>
  A \<open>val\<close> is a value with a dynamic type, that is, what a non-nil \<^verbatim>\<open>interface{}\<close>
  holds. A \<open>slot\<close> is a place inside a value (a field, an element, a map key or value,
  the target of a pointer): either its static type is a concrete type and it holds
  a \<open>val\<close> directly, or its static type is an interface type and it holds an interface
  value, nil (\<open>None\<close>) or not.

  \<^item> \<open>VPtr n v t\<close>: a pointer whose element type is named \<open>n\<close>
    (\<^verbatim>\<open>typeOf.Elem().Name()\<close>); \<open>v\<close> is \<open>None\<close> when the pointer type does not implement
    \<^verbatim>\<open>Validater\<close>, and \<open>Some c\<close> when it does and calling \<^verbatim>\<open>Validate()\<close> on this pointer
    does \<open>c\<close>; \<open>t\<close> is \<open>None\<close> for the nil pointer, else the slot pointed to.
  \<^item> \<open>VStruct fs\<close>: a struct, its fields in declaration order, each with its declaration.
  \<^item> \<open>VSlice n xs\<close>: a slice of the type named \<open>n\<close> (\<^verbatim>\<open>valueOf.Type().Name()\<close>, empty for
    an unnamed type); \<open>xs\<close> is \<open>None\<close> for the nil slice.
  \<^item> \<open>VArray n xs\<close>: an array.
  \<^item> \<open>VMap n m\<close>: a map, \<open>None\<close> when nil, else its entries in the order in which
    \<^verbatim>\<open>MapKeys\<close> lists the keys in this call, each key with the value stored for it.
  \<^item> \<open>VString t s\<close>: a string \<open>s\<close> of the type \<open>t\<close>.
  \<^item> \<open>VComplex re im\<close>: a complex number, its real and its imaginary part.
  \<^item> the other constructors are the leaf kinds; a channel, function or unsafe pointer
    carries whether it is nil.

  Values are finite trees: a cyclic pointer graph, on which the Go recursion would
  not end, is outside the model (a decoded JSON document is a tree).
\<close>

datatype val =
    VPtr string "call option" "slot option"
  | VStruct "(StructField \<times> slot) list"
  | VSlice string "slot list option"
  | VArray string "slot list"
  | VMap string "(slot \<times> slot) list option"
  | VString string_type string
  | VBool bool
  | VInt int
  | VUint nat
  | VFloat float
  | VComplex float float
  | VChan bool
  | VFunc bool
  | VUnsafePointer bool
and slot = Direct val | Iface "val option"

fun Kind_of :: "val \<Rightarrow> Kind" where
  "Kind_of (VPtr n v t) = reflect_Ptr"
| "Kind_of (VStruct fs) = reflect_Struct"
| "Kind_of (VSlice n xs) = reflect_Slice"
| "Kind_of (VArray n xs) = reflect_Array"
| "Kind_of (VMap n m) = reflect_Map"
| "Kind_of (VString t s) = reflect_String"
| "Kind_of (VBool b) = reflect_Bool"
| "Kind_of (VInt i) = reflect_Int"
| "Kind_of (VUint u) = reflect_Uint"
| "Kind_of (VFloat f) = reflect_Float"
| "Kind_of (VComplex re im) = reflect_Complex"
| "Kind_of (VChan b) = reflect_Chan"
| "Kind_of (VFunc b) = reflect_Func"
| "Kind_of (VUnsafePointer b) = reflect_UnsafePointer"

text \<open>\<^verbatim>\<open>reflect.Value.Kind\<close> of a slot: an interface-typed slot has kind Interface.\<close>

fun Kind_of_slot :: "slot \<Rightarrow> Kind" where
  "Kind_of_slot (Direct v) = Kind_of v"
| "Kind_of_slot (Iface c) = reflect_Interface"

text \<open>
  The panics of the engine: \<^verbatim>\<open>Kind()\<close> called on the nil \<^verbatim>\<open>reflect.Type\<close> that
  \<^verbatim>\<open>reflect.TypeOf(nil)\<close> returns; \<^verbatim>\<open>Interface()\<close> called on the zero \<^verbatim>\<open>reflect.Value\<close>
  that \<^verbatim>\<open>Elem()\<close> of a nil pointer, or \<^verbatim>\<open>MapIndex\<close> of a key it does not find, returns;
  \<^verbatim>\<open>IsNil()\<close> called on a value whose kind cannot be nil; \<^verbatim>\<open>Interface()\<close> called on a
  value obtained from an unexported field; the type assertion \<^verbatim>\<open>.(string)\<close> on a value
  whose type is not \<^verbatim>\<open>string\<close>; a panic inside the user's \<^verbatim>\<open>Validate()\<close>.
\<close>

datatype fault =
    Kind_of_nil_Type
  | Interface_of_zero_Value
  | IsNil_of_kind Kind
  | Interface_of_unexported_field
  | Not_a_string string
  | Validate_panicked

text \<open>A call of the engine returns an error (nil on success) or panics.\<close>

datatype outcome = Return error | Panic fault

text \<open>
  What a call does besides: it calls \<^verbatim>\<open>Validate()\<close> of a pointer (recorded with the name
  of the element type), it prints the line of \<^verbatim>\<open>handleArraySlice\<close> (recorded with the
  type name and the elements printed), and the download closes the response body.
\<close>

datatype event =
    Validate_called string
  | Printf_slice string "slot list"
  | Body_Close

type_synonym result = "outcome \<times> event list"

text \<open>\<open>after es r\<close>: the effects \<open>es\<close> happened, then the call with result \<open>r\<close> ran.\<close>

definition after :: "event list \<Rightarrow> result \<Rightarrow> result" where
  "after es r = (fst r, es @ snd r)"

text \<open>
  \<^verbatim>\<open>reflect.Value.Interface\<close>: the slot's content as an \<^verbatim>\<open>interface{}\<close>; for an
  interface-typed slot this is the interface value it holds, nil included.
\<close>

fun Interface :: "slot \<Rightarrow> val option" where
  "Interface (Direct v) = Some v"
| "Interface (Iface c) = c"

text \<open>
  \<^verbatim>\<open>reflect.Value.IsNil\<close>: defined on chan, func, interface, map, pointer, slice and
  unsafe pointer values; it panics on every other kind.
\<close>

fun IsNil :: "slot \<Rightarrow> fault + bool" where
  "IsNil (Iface c) = Inr (c = None)"
| "IsNil (Direct (VPtr n v t)) = Inr (t = None)"
| "IsNil (Direct (VSlice n xs)) = Inr (xs = None)"
| "IsNil (Direct (VMap n m)) = Inr (m = None)"
| "IsNil (Direct (VChan b)) = Inr b"
| "IsNil (Direct (VFunc b)) = Inr b"
| "IsNil (Direct (VUnsafePointer b)) = Inr b"
| "IsNil (Direct v) = Inl (IsNil_of_kind (Kind_of v))"

text \<open>
  Whether a map key is equal to itself under Go's \<^verbatim>\<open>==\<close>, which is what lets
  \<^verbatim>\<open>MapIndex(k)\<close> find the entry of a key \<open>k\<close> that \<^verbatim>\<open>MapKeys\<close> has listed. A float that is
  not a number differs from itself, and so does a complex number with such a part, a
  struct with such a field (blank fields \<^verbatim>\<open>_\<close> are not compared), an array with such
  an element and an interface holding such a value. Every other value that can be a
  key is equal to itself (slices, maps and functions cannot be keys).
\<close>

fun self_equal :: "val \<Rightarrow> bool"
and self_equal_slot :: "slot \<Rightarrow> bool"
and self_equal_fields :: "(StructField \<times> slot) list \<Rightarrow> bool"
and self_equal_slots :: "slot list \<Rightarrow> bool"
where
  "self_equal (VFloat f) = (f \<noteq> NaN)"
| "self_equal (VComplex re im) = (re \<noteq> NaN \<and> im \<noteq> NaN)"
| "self_equal (VStruct fs) = self_equal_fields fs"
| "self_equal (VArray n xs) = self_equal_slots xs"
| "self_equal _ = True"
| "self_equal_slot (Direct v) = self_equal v"
| "self_equal_slot (Iface None) = True"
| "self_equal_slot (Iface (Some v)) = self_equal v"
| "self_equal_fields [] = True"
| "self_equal_fields ((typeField, x) # fs) =
     ((Name typeField = ''_'' \<or> self_equal_slot x) \<and> self_equal_fields fs)"
| "self_equal_slots [] = True"
| "self_equal_slots (x # xs) = (self_equal_slot x \<and> self_equal_slots xs)"

section \<open>Struct tags\<close>

text \<open>
  \<^verbatim>\<open>typeField.Tag.Get("remoteconfig")\<close> is \<^verbatim>\<open>reflect.StructTag.Get\<close>, which scans the raw
  tag for \<^verbatim>\<open>key:"value"\<close> pairs and unquotes the value with \<^verbatim>\<open>strconv.Unquote\<close>. Both are
  modelled here as the Go library defines them, on bytes.
\<close>

definition dquote :: char where
  "dquote = CHR 0x22"

definition backslash :: char where
  "backslash = CHR 0x5C"

definition newline :: char where
  "newline = CHR 0x0A"

definition byte :: "char \<Rightarrow> nat" where
  "byte c = of_char c"

definition byte_between :: "nat \<Rightarrow> char \<Rightarrow> nat \<Rightarrow> bool" where
  "byte_between lo c hi = (lo \<le> byte c \<and> byte c \<le> hi)"

text \<open>
  UTF-8 as \<^verbatim>\<open>unicode/utf8\<close> accepts it: \<open>utf8_size s\<close> is the size of the encoding at the
  head of \<open>s\<close>, 0 when there is none; \<open>continuation n s\<close> says that \<open>s\<close> starts with \<open>n\<close>
  continuation bytes.
\<close>

fun continuation :: "nat \<Rightarrow> string \<Rightarrow> bool" where
  "continuation 0 s = True"
| "continuation (Suc n) [] = False"
| "continuation (Suc n) (c # s) = (byte_between 0x80 c 0xBF \<and> continuation n s)"

lemma continuation_length: "continuation n s \<Longrightarrow> n \<le> length s"
  by (induction n s rule: continuation.induct) auto

text \<open>
  The rest of an encoding of \<open>n\<close> bytes after its first byte: a second byte in the range
  the first byte allows, then continuation bytes.
\<close>

definition rest_of :: "nat \<Rightarrow> nat \<Rightarrow> nat \<Rightarrow> string \<Rightarrow> nat" where
  "rest_of n lo hi s =
     (case s of [] \<Rightarrow> 0
      | d # t \<Rightarrow> if byte_between lo d hi \<and> continuation (n - 2) t then n else 0)"

lemma rest_of_le: "2 \<le> n \<Longrightarrow> rest_of n lo hi s \<le> Suc (length s)"
  by (auto simp: rest_of_def split: list.split dest: continuation_length)

fun utf8_size :: "string \<Rightarrow> nat" where
  "utf8_size [] = 0"
| "utf8_size (c # s) =
     (if byte c < 0x80 then 1
      else if byte_between 0xC2 c 0xDF then rest_of 2 0x80 0xBF s
      else if byte c = 0xE0 then rest_of 3 0xA0 0xBF s
      else if byte_between 0xE1 c 0xEC then rest_of 3 0x80 0xBF s
      else if byte c = 0xED then rest_of 3 0x80 0x9F s
      else if byte_between 0xEE c 0xEF then rest_of 3 0x80 0xBF s
      else if byte c = 0xF0 then rest_of 4 0x90 0xBF s
      else if byte_between 0xF1 c 0xF3 then rest_of 4 0x80 0xBF s
      else if byte c = 0xF4 then rest_of 4 0x80 0x8F s
      else 0)"

lemma utf8_size_le: "utf8_size s \<le> length s"
  by (cases s) (simp_all add: rest_of_le)

function ValidString :: "string \<Rightarrow> bool" where
  "ValidString s =
     (if s = [] then True
      else if utf8_size s = 0 then False
      else ValidString (drop (utf8_size s) s))"
  by pat_completeness auto
termination
  by (relation "measure length") auto

declare ValidString.simps [simp del]

text \<open>The UTF-8 encoding of a rune from U+0080 on (\<^verbatim>\<open>utf8.AppendRune\<close>).\<close>

definition AppendRune :: "nat \<Rightarrow> string" where
  "AppendRune r =
     (if r < 0x800 then [char_of (0xC0 + r div 64), char_of (0x80 + r mod 64)]
      else if r < 0x10000 then
        [char_of (0xE0 + r div 4096), char_of (0x80 + r div 64 mod 64), char_of (0x80 + r mod 64)]
      else
        [char_of (0xF0 + r div 262144), char_of (0x80 + r div 4096 mod 64),
         char_of (0x80 + r div 64 mod 64), char_of (0x80 + r mod 64)])"

definition ValidRune :: "nat \<Rightarrow> bool" where
  "ValidRune r = (r < 0xD800 \<or> 0xDFFF < r \<and> r \<le> 0x10FFFF)"

definition unhex :: "char \<Rightarrow> nat option" where
  "unhex c =
     (if byte_between 0x30 c 0x39 then Some (byte c - 0x30)
      else if byte_between 0x61 c 0x66 then Some (byte c - 0x61 + 10)
      else if byte_between 0x41 c 0x46 then Some (byte c - 0x41 + 10)
      else None)"

definition octal :: "char \<Rightarrow> nat option" where
  "octal c = (if byte_between 0x30 c 0x37 then Some (byte c - 0x30) else None)"

text \<open>The digits of an escape, read from the left in the given base.\<close>

fun digits_value :: "nat \<Rightarrow> (char \<Rightarrow> nat option) \<Rightarrow> nat \<Rightarrow> string \<Rightarrow> nat option" where
  "digits_value base digit v [] = Some v"
| "digits_value base digit v (c # s) =
     (case digit c of None \<Rightarrow> None | Some x \<Rightarrow> digits_value base digit (base * v + x) s)"

text \<open>
  \<^verbatim>\<open>strconv.UnquoteChar(s, '"')\<close> together with what \<^verbatim>\<open>strconv.Unquote\<close> appends for it: the
  bytes decoded from the head of \<open>s\<close> and the tail, or \<open>None\<close> for a syntax error.
  \<open>escape c s\<close> is the case of a backslash followed by \<open>c\<close> and then \<open>s\<close>.
\<close>

definition escape :: "char \<Rightarrow> string \<Rightarrow> (string \<times> string) option" where
  "escape c s =
     (if c = CHR ''a'' then Some ([CHR 0x07], s)
      else if c = CHR ''b'' then Some ([CHR 0x08], s)
      else if c = CHR ''f'' then Some ([CHR 0x0C], s)
      else if c = CHR ''n'' then Some ([CHR 0x0A], s)
      else if c = CHR ''r'' then Some ([CHR 0x0D], s)
      else if c = CHR ''t'' then Some ([CHR 0x09], s)
      else if c = CHR ''v'' then Some ([CHR 0x0B], s)
      else if c = CHR ''x'' \<or> c = CHR ''u'' \<or> c = CHR ''U'' then
        (let n = (if c = CHR ''x'' then 2 else if c = CHR ''u'' then 4 else 8) in
         if length s < n then None
         else
           (case digits_value 16 unhex 0 (take n s) of
              None \<Rightarrow> None
            | Some v \<Rightarrow>
                if c = CHR ''x'' then Some ([char_of v], drop n s)
                else if \<not> ValidRune v then None
                else Some (if v < 0x80 then [char_of v] else AppendRune v, drop n s)))
      else if byte_between 0x30 c 0x37 then
        (if length s < 2 then None
         else
           (case digits_value 8 octal (byte c - 0x30) (take 2 s) of
              None \<Rightarrow> None
            | Some v \<Rightarrow> if v > 255 then None else Some ([char_of v], drop 2 s)))
      else if c = backslash then Some ([backslash], s)
      else if c = dquote then Some ([dquote], s)
      else None)"

fun UnquoteChar :: "string \<Rightarrow> (string \<times> string) option" where
  "UnquoteChar [] = None"
| "UnquoteChar (c # s) =
     (if c = dquote then None
      else if byte c \<ge> 0x80 then
        (if utf8_size (c # s) = 0 then Some ([CHR 0xEF, CHR 0xBF, CHR 0xBD], s)
         else Some (take (utf8_size (c # s)) (c # s), drop (utf8_size (c # s)) (c # s)))
      else if c \<noteq> backslash then Some ([c], s)
      else (case s of [] \<Rightarrow> None | e # t \<Rightarrow> escape e t))"

lemma escape_shorter: "escape c s = Some (out, rest) \<Longrightarrow> length rest \<le> length s"
  by (auto simp: escape_def Let_def split: if_splits option.splits)

lemma UnquoteChar_shorter: "UnquoteChar s = Some (out, rest) \<Longrightarrow> length rest < length s"
  by (cases s) (auto split: if_splits list.splits dest: escape_shorter)

text \<open>The loop of \<^verbatim>\<open>strconv.Unquote\<close> from after the opening quote to the closing one.\<close>

function unquote_loop :: "string \<Rightarrow> (string \<times> string) option" where
  "unquote_loop s =
     (case s of
        [] \<Rightarrow> None
      | c # t \<Rightarrow>
          if c = dquote then Some ([], t)
          else
            (case UnquoteChar s of
               None \<Rightarrow> None
             | Some (out, rest) \<Rightarrow>
                 if c = newline then None
                 else
                   (case unquote_loop rest of
                      None \<Rightarrow> None
                    | Some (decoded, remainder) \<Rightarrow> Some (out @ decoded, remainder))))"
  by pat_completeness auto
termination
  by (relation "measure length") (auto simp del: UnquoteChar.simps dest: UnquoteChar_shorter)

declare unquote_loop.simps [simp del]

text \<open>
  \<^verbatim>\<open>strconv.Unquote\<close> of a string in double quotes, the only form \<^verbatim>\<open>StructTag.Lookup\<close>
  passes to it: the string between the quotes when it has no backslash, no newline
  and is valid UTF-8, else what the loop decodes; nothing may follow the closing quote.
\<close>

definition Unquote :: "string \<Rightarrow> string option" where
  "Unquote s =
     (if length s < 2 \<or> hd s \<noteq> dquote \<or> dquote \<notin> set (tl s) then None
      else
        (let body = takeWhile (\<lambda>c. c \<noteq> dquote) (tl s) in
         if backslash \<notin> set body \<and> newline \<notin> set body \<and> ValidString body then
           (if drop (length body + 2) s = [] then Some body else None)
         else
           (case unquote_loop (tl s) of
              None \<Rightarrow> None
            | Some (out, remainder) \<Rightarrow> if remainder = [] then Some out else None)))"

text \<open>
  One turn of the loop of \<^verbatim>\<open>StructTag.Lookup\<close>: skip spaces, scan the name up to the
  colon, scan the quoted value; the name, the quoted value and the rest of the tag,
  or \<open>None\<close> where the loop breaks. \<open>closing s\<close> is the index of the closing quote in
  \<open>s\<close>, the tag after the opening quote; a backslash skips the byte after it.
\<close>

definition name_char :: "char \<Rightarrow> bool" where
  "name_char c = (byte c > 0x20 \<and> c \<noteq> CHR '':'' \<and> c \<noteq> dquote \<and> byte c \<noteq> 0x7F)"

fun closing :: "string \<Rightarrow> nat option" where
  "closing [] = None"
| "closing [c] = (if c = dquote then Some 0 else None)"
| "closing (c # d # s) =
     (if c = dquote then Some 0
      else if c = backslash then map_option (\<lambda>i. i + 2) (closing s)
      else map_option Suc (closing (d # s)))"

definition next_pair :: "string \<Rightarrow> (string \<times> string \<times> string) option" where
  "next_pair tag0 =
     (let tag = dropWhile (\<lambda>c. c = CHR '' '') tag0 in
      if tag = [] then None
      else
        (let i = length (takeWhile name_char tag) in
         if i = 0 \<or> i + 1 \<ge> length tag \<or> tag ! i \<noteq> CHR '':'' \<or> tag ! (i + 1) \<noteq> dquote then None
         else
           (let name = take i tag; qtail = drop (i + 1) tag in
            (case closing (tl qtail) of
               None \<Rightarrow> None
             | Some j \<Rightarrow> Some (name, take (j + 2) qtail, drop (j + 2) qtail)))))"

lemma next_pair_shorter:
  assumes "next_pair tag = Some (name, qvalue, rest)"
  shows "length rest < length tag"
proof -
  define t where "t = dropWhile (\<lambda>c. c = CHR '' '') tag"
  have le: "length t \<le> length tag"
    unfolding t_def by (rule length_dropWhile_le)
  from assms have "t \<noteq> []"
    by (auto simp: next_pair_def t_def Let_def split: if_splits)
  with assms le show ?thesis
    by (auto simp: next_pair_def t_def [symmetric] Let_def split: if_splits option.splits)
qed

text \<open>
  \<^verbatim>\<open>StructTag.Lookup\<close>: the loop goes from pair to pair; at the first pair with the key
  it unquotes the value and returns it, and it breaks where a pair is malformed or
  the value does not unquote.
\<close>

function Lookup :: "string \<Rightarrow> string \<Rightarrow> string \<times> bool" where
  "Lookup tag key =
     (case next_pair tag of
        None \<Rightarrow> ([], False)
      | Some (name, qvalue, rest) \<Rightarrow>
          if key = name then
            (case Unquote qvalue of None \<Rightarrow> ([], False) | Some v \<Rightarrow> (v, True))
          else Lookup rest key)"
  by pat_completeness auto
termination
  by (relation "measure (\<lambda>(tag, key). length tag)") (auto dest: next_pair_shorter)

declare Lookup.simps [simp del]

text \<open>\<^verbatim>\<open>StructTag.Get\<close>: the value \<^verbatim>\<open>Lookup\<close> finds, the empty string when it finds none.\<close>

definition Get :: "string \<Rightarrow> string \<Rightarrow> string" where
  "Get tag key = fst (Lookup tag key)"

text \<open>A value between double quotes, as it stands in a tag.\<close>

definition quoted :: "string \<Rightarrow> string" where
  "quoted v = dquote # v @ [dquote]"

section \<open>Field tags\<close>

record TagOptions =
  Optional :: bool

text \<open>\<^verbatim>\<open>strings.Contains(s, substr)\<close>: \<open>substr\<close> occurs in \<open>s\<close> at some position.\<close>

fun Contains :: "string \<Rightarrow> string \<Rightarrow> bool" where
  "Contains [] substr = (substr = [])"
| "Contains (c # s) substr = (take (length substr) (c # s) = substr \<or> Contains s substr)"

definition readTags :: "StructField \<Rightarrow> TagOptions" where
  "readTags typeField =
     (let tags = Get (Tag typeField) ''remoteconfig''
      in \<lparr>Optional = Contains tags ''optional''\<rparr>)"

text \<open>\<^verbatim>\<open>StructField.IsExported\<close>.\<close>

definition IsExported :: "StructField \<Rightarrow> bool" where
  "IsExported typeField = (PkgPath typeField = [])"

section \<open>The validation engine\<close>

text \<open>
  \<^verbatim>\<open>handleString\<close> reads the string with the type assertion \<^verbatim>\<open>valueOf.Interface().(string)\<close>,
  which panics unless the type of the value is the predeclared \<^verbatim>\<open>string\<close>.
\<close>

definition handleString :: "string_type \<Rightarrow> string \<Rightarrow> result" where
  "handleString t s =
     (case t of
        Defined n \<Rightarrow> (Panic (Not_a_string n), [])
      | Predeclared \<Rightarrow>
          if s = [] then
            (Return (Some (''String Field: '' @ Type_Name t @ '', contains an empty string'')), [])
          else (Return None, []))"

text \<open>What \<^verbatim>\<open>Interface()\<close> returns is no larger than the slot it is read from.\<close>

lemma Interface_smaller: "size s \<le> n \<Longrightarrow> size_option size (Interface s) < Suc n"
  by (cases s) auto

text \<open>
  The dispatcher and its handlers. A handler takes what it reads of \<^verbatim>\<open>typeOf\<close> and
  \<^verbatim>\<open>valueOf\<close>. The \<^verbatim>\<open>switch\<close> on the kind is the match on the constructor, its
  fall-through the last equation. The loops over fields, elements and map keys are
  recursions over the lists; a nil slice or map has length zero.

  \<^verbatim>\<open>handleStruct\<close> asks \<^verbatim>\<open>IsNil()\<close> of a field before it looks at the tag options, and
  reads the value of a field that is not nil with \<^verbatim>\<open>Interface()\<close>, which \<^verbatim>\<open>reflect\<close>
  refuses with a panic for an unexported field. The values handed to the dispatcher
  come from \<^verbatim>\<open>reflect.ValueOf\<close> afresh, so elements and pointer targets can always be
  read. \<^verbatim>\<open>handleMap\<close> looks the value of each key up with \<^verbatim>\<open>MapIndex(k)\<close>; for a key that
  is not equal to itself the lookup finds nothing and \<^verbatim>\<open>Interface()\<close> panics on the
  zero \<^verbatim>\<open>reflect.Value\<close> it returns.
\<close>

function (sequential) validateConfigWithReflection :: "val option \<Rightarrow> result"
and handlePtr :: "string \<Rightarrow> call option \<Rightarrow> slot option \<Rightarrow> result"
and handleStruct :: "(StructField \<times> slot) list \<Rightarrow> result"
and handleArraySlice :: "string \<Rightarrow> slot list option \<Rightarrow> result"
and handleArraySlice_loop :: "slot list \<Rightarrow> result"
and handleMap :: "string \<Rightarrow> (slot \<times> slot) list option \<Rightarrow> result"
and handleMap_loop :: "(slot \<times> slot) list \<Rightarrow> result"
where
  "validateConfigWithReflection None = (Panic Kind_of_nil_Type, [])"
| "validateConfigWithReflection (Some (VPtr n v t)) = handlePtr n v t"
| "validateConfigWithReflection (Some (VStruct fs)) = handleStruct fs"
| "validateConfigWithReflection (Some (VSlice n xs)) = handleArraySlice n xs"
| "validateConfigWithReflection (Some (VArray n xs)) = handleArraySlice n (Some xs)"
| "validateConfigWithReflection (Some (VMap n m)) = handleMap n m"
| "validateConfigWithReflection (Some (VString t s)) = handleString t s"
| "validateConfigWithReflection (Some _) = (Return None, [])"

| "handlePtr n (Some (Returns (Some err))) t =
     (Return (Some (''Validater Field: '' @ n @ '', failed to validate with error, '' @ err)),
      [Validate_called n])"
| "handlePtr n (Some (Returns None)) t = (Return None, [Validate_called n])"
| "handlePtr n (Some Panics) t = (Panic Validate_panicked, [Validate_called n])"
| "handlePtr n None None = (Panic Interface_of_zero_Value, [])"
| "handlePtr n None (Some s) =
     (case validateConfigWithReflection (Interface s) of
        (Return (Some err), es) \<Rightarrow>
          (Return (Some (''Sub Field of '' @ n @ '', failed to validate with error, '' @ err)), es)
      | r \<Rightarrow> r)"

| "handleStruct [] = (Return None, [])"
| "handleStruct ((typeField, valueField) # rest) =
     (let tags = readTags typeField in
      case IsNil valueField of
        Inl f \<Rightarrow> (Panic f, [])
      | Inr nil \<Rightarrow>
          if nil \<and> \<not> Optional tags then
            (Return (Some (''Field: '' @ Name typeField @ '', not set'')), [])
          else if nil \<and> Optional tags then handleStruct rest
          else if \<not> IsExported typeField then (Panic Interface_of_unexported_field, [])
          else if Interface valueField \<noteq> None \<and> \<not> nil then
            (case validateConfigWithReflection (Interface valueField) of
               (Return None, es) \<Rightarrow> after es (handleStruct rest)
             | r \<Rightarrow> r)
          else handleStruct rest)"

| "handleArraySlice n None =
     (Return (Some (''Slice/Array Field: '' @ n @ '', is empty'')), [Printf_slice n []])"
| "handleArraySlice n (Some xs) =
     after [Printf_slice n xs]
       (if length xs \<le> 0 then (Return (Some (''Slice/Array Field: '' @ n @ '', is empty'')), [])
        else handleArraySlice_loop xs)"
| "handleArraySlice_loop [] = (Return None, [])"
| "handleArraySlice_loop (x # xs) =
     (case validateConfigWithReflection (Interface x) of
        (Return None, es) \<Rightarrow> after es (handleArraySlice_loop xs)
      | r \<Rightarrow> r)"

| "handleMap n None = (Return (Some (''Map Field: '' @ n @ '', is empty'')), [])"
| "handleMap n (Some m) =
     (if length m \<le> 0 then (Return (Some (''Map Field: '' @ n @ '', is empty'')), [])
      else handleMap_loop m)"
| "handleMap_loop [] = (Return None, [])"
| "handleMap_loop ((k, x) # m) =
     (if \<not> self_equal_slot k then (Panic Interface_of_zero_Value, [])
      else
        (case validateConfigWithReflection (Interface x) of
           (Return None, es) \<Rightarrow> after es (handleMap_loop m)
         | r \<Rightarrow> r))"
  by pat_completeness auto

termination
  by (relation "measure (case_sum
        (case_sum (size_option size)
           (case_sum (\<lambda>(n, v, t). size_option size t)
              (size_list (size_prod (\<lambda>_. 0) size))))
        (case_sum
           (case_sum (\<lambda>(n, xs). size_option (size_list size) xs) (size_list size))
           (case_sum (\<lambda>(n, m). size_option (size_list (size_prod size size)) m)
              (size_list (size_prod size size)))))")
     (auto intro!: Interface_smaller)

section \<open>Download, decode, validate\<close>

text \<open>
  \<^verbatim>\<open>%d\<close> of \<^verbatim>\<open>fmt\<close>: an integer in decimal, with a minus sign when negative.
\<close>

fun digits :: "nat \<Rightarrow> string" where
  "digits n =
     (if n < 10 then [''0123456789'' ! n]
      else digits (n div 10) @ [''0123456789'' ! (n mod 10)])"

declare digits.simps [simp del]

definition itoa :: "int \<Rightarrow> string" where
  "itoa i = (if i < 0 then CHR ''-'' # digits (nat (- i)) else digits (nat i))"

text \<open>What the engine reads of an \<^verbatim>\<open>http.Response\<close>.\<close>

record Response =
  StatusCode :: int
  Body :: string

text \<open>The \<^verbatim>\<open>defer resp.Body.Close()\<close>: the body is closed when the function leaves, however it leaves.\<close>

definition deferred_Close :: "result \<Rightarrow> result" where
  "deferred_Close r = (fst r, snd r @ [Body_Close])"

text \<open>
  \<^verbatim>\<open>DownloadJSONValidate\<close>. The two collaborators it calls are parameters:
  \<open>http_Get url\<close> is the transport error or the response, and \<open>Decode body c\<close> is
  the error of \<^verbatim>\<open>json.NewDecoder(body).Decode(c)\<close> together with the configuration
  as the decoder left it (decoding writes through the pointer, also when it fails
  half way).
\<close>

definition DownloadJSONValidate ::
  "(string \<Rightarrow> string + Response) \<Rightarrow> (string \<Rightarrow> val option \<Rightarrow> error \<times> val option) \<Rightarrow>
   string \<Rightarrow> val option \<Rightarrow> result" where
  "DownloadJSONValidate http_Get Decode signedURL configStruct =
     (case http_Get signedURL of
        Inl err \<Rightarrow> (Return (Some err), [])
      | Inr resp \<Rightarrow>
          deferred_Close
            (if StatusCode resp \<noteq> 200 then
               (Return (Some (''Download of JSON failed, URL = '' @ signedURL @
                              '', Response Code = '' @ itoa (StatusCode resp))), [])
             else
               (case Decode (Body resp) configStruct of
                  (Some err, decoded) \<Rightarrow>
                    (Return (Some (''Failed to decode JSON, with error, '' @ err)), [])
                | (None, decoded) \<Rightarrow> validateConfigWithReflection decoded)))"

section \<open>Vocabulary of the properties\<close>

text \<open>
  A slot passes when the dispatcher, called on what \<^verbatim>\<open>Interface()\<close> returns for it,
  returns the nil error; its effects are what that call does besides.
\<close>

definition passes :: "slot \<Rightarrow> bool" where
  "passes x = (fst (validateConfigWithReflection (Interface x)) = Return None)"

definition effects :: "slot \<Rightarrow> event list" where
  "effects x = snd (validateConfigWithReflection (Interface x))"

text \<open>
  A field lets the loop of \<^verbatim>\<open>handleStruct\<close> go on to the next field when it is nil and
  tagged optional, or when it is not nil, exported, and passes. Only a field that is
  not nil is handed to the dispatcher.
\<close>

definition field_passes :: "StructField \<times> slot \<Rightarrow> bool" where
  "field_passes f =
     (IsNil (snd f) = Inr True \<and> Optional (readTags (fst f)) \<or>
      IsNil (snd f) = Inr False \<and> IsExported (fst f) \<and> passes (snd f))"

definition field_effects :: "StructField \<times> slot \<Rightarrow> event list" where
  "field_effects f = (if IsNil (snd f) = Inr False then effects (snd f) else [])"

text \<open>
  An entry of a map lets the loop of \<^verbatim>\<open>handleMap\<close> go on when its key is equal to itself,
  so that the lookup finds the value, and the value passes.
\<close>

definition entry_passes :: "slot \<times> slot \<Rightarrow> bool" where
  "entry_passes e = (self_equal_slot (fst e) \<and> passes (snd e))"

text \<open>
  A descent from a root to a value the dispatcher is called on: one step for each
  level entered. Going into an element, a map value or a field is possible only when
  everything before it in its container lets the loop go on. \<open>context_of\<close> is the
  text a level puts in front of an error that comes up through it.
\<close>

datatype step =
    Through_Ptr string
  | Through_Field string
  | Through_Index nat
  | Through_Key slot

fun context_of :: "step \<Rightarrow> string" where
  "context_of (Through_Ptr n) = ''Sub Field of '' @ n @ '', failed to validate with error, ''"
| "context_of (Through_Field f) = []"
| "context_of (Through_Index i) = []"
| "context_of (Through_Key k) = []"

inductive reaches :: "val option \<Rightarrow> step list \<Rightarrow> val option \<Rightarrow> bool" where
  root: "reaches c [] c"
| ptr: "reaches (Interface s) p c \<Longrightarrow>
        reaches (Some (VPtr n None (Some s))) (Through_Ptr n # p) c"
| field: "\<forall>f\<in>set pre. field_passes f \<Longrightarrow> IsNil vf = Inr False \<Longrightarrow> IsExported tf \<Longrightarrow>
          reaches (Interface vf) p c \<Longrightarrow>
          reaches (Some (VStruct (pre @ (tf, vf) # post))) (Through_Field (Name tf) # p) c"
| slice: "\<forall>y\<in>set pre. passes y \<Longrightarrow> reaches (Interface x) p c \<Longrightarrow>
          reaches (Some (VSlice n (Some (pre @ x # post)))) (Through_Index (length pre) # p) c"
| array: "\<forall>y\<in>set pre. passes y \<Longrightarrow> reaches (Interface x) p c \<Longrightarrow>
          reaches (Some (VArray n (pre @ x # post))) (Through_Index (length pre) # p) c"
| entry: "\<forall>e\<in>set pre. entry_passes e \<Longrightarrow> self_equal_slot k \<Longrightarrow> reaches (Interface x) p c \<Longrightarrow>
          reaches (Some (VMap n (Some (pre @ (k, x) # post)))) (Through_Key k # p) c"

fun in_context :: "step list \<Rightarrow> outcome \<Rightarrow> outcome" where
  "in_context p (Return (Some e)) = Return (Some (concat (map context_of p) @ e))"
| "in_context p out = out"

text \<open>
  A value put alone inside a container, as often as wanted: behind a pointer, as the
  only element of a slice or array (of a concrete or of an interface element type), as
  the only value of a map with string keys, or behind the pointer held by the only
  field, exported, of a record.
\<close>

datatype wrapper =
    In_Ptr string
  | In_Slice string
  | In_Interface_Slice string
  | In_Array string
  | In_Map string string
  | In_Interface_Map string string
  | In_Field string string string

fun wrap :: "wrapper \<Rightarrow> val \<Rightarrow> val" where
  "wrap (In_Ptr n) v = VPtr n None (Some (Direct v))"
| "wrap (In_Slice n) v = VSlice n (Some [Direct v])"
| "wrap (In_Interface_Slice n) v = VSlice n (Some [Iface (Some v)])"
| "wrap (In_Array n) v = VArray n [Direct v]"
| "wrap (In_Map n k) v = VMap n (Some [(Direct (VString Predeclared k), Direct v)])"
| "wrap (In_Interface_Map n k) v = VMap n (Some [(Direct (VString Predeclared k), Iface (Some v))])"
| "wrap (In_Field f tag n) v =
     VStruct [(\<lparr>Name = f, PkgPath = [], Tag = tag\<rparr>, Direct (VPtr n None (Some (Direct v))))]"

definition failed :: "result \<Rightarrow> bool" where
  "failed r = (\<exists>e. fst r = Return (Some e))"

definition succeeded :: "result \<Rightarrow> bool" where
  "succeeded r = (fst r = Return None)"

text \<open>
  Tags in the conventional format: \<^verbatim>\<open>key:"value"\<close> pairs separated by a space. A plain key
  is not empty and has no space, colon, quote or control byte; a plain value is made
  of printable ASCII without quote and backslash, so it stands in the tag as it is.
  \<open>render ps\<close> is the tag written for the pairs \<open>ps\<close>.
\<close>

definition plain_key :: "string \<Rightarrow> bool" where
  "plain_key k = (k \<noteq> [] \<and> list_all name_char k)"

definition plain_value :: "string \<Rightarrow> bool" where
  "plain_value v = list_all (\<lambda>c. byte_between 0x20 c 0x7E \<and> c \<noteq> dquote \<and> c \<noteq> backslash) v"

definition plain :: "(string \<times> string) list \<Rightarrow> bool" where
  "plain ps = list_all (\<lambda>p. plain_key (fst p) \<and> plain_value (snd p)) ps"

fun render :: "(string \<times> string) list \<Rightarrow> string" where
  "render [] = []"
| "render [(k, v)] = k @ '':'' @ quoted v"
| "render ((k, v) # p # ps) = k @ '':'' @ quoted v @ '' '' @ render (p # ps)"



section \<open>Sequencing of effects\<close>

lemma after_Nil [simp]: "after [] r = r"
  by (simp add: after_def)

lemma after_pair [simp]: "after es (out, es') = (out, es @ es')"
  by (simp add: after_def)

lemma fst_after [simp]: "fst (after es r) = fst r"
  by (simp add: after_def)

lemma snd_after [simp]: "snd (after es r) = es @ snd r"
  by (simp add: after_def)

lemma after_after [simp]: "after es (after es' r) = after (es @ es') r"
  by (simp add: after_def)

section \<open>The loops\<close>

lemma not_nil_Interface: "IsNil x = Inr False \<Longrightarrow> Interface x \<noteq> None"
  by (cases x rule: IsNil.cases) auto

lemma handleArraySlice_loop_Cons:
  "handleArraySlice_loop (x # xs) =
     (if passes x then after (effects x) (handleArraySlice_loop xs)
      else validateConfigWithReflection (Interface x))"
  by (cases "validateConfigWithReflection (Interface x)")
     (simp add: passes_def effects_def split: outcome.split option.split)

lemma handleMap_loop_Cons:
  "handleMap_loop ((k, x) # m) =
     (if \<not> self_equal_slot k then (Panic Interface_of_zero_Value, [])
      else if passes x then after (effects x) (handleMap_loop m)
      else validateConfigWithReflection (Interface x))"
  by (cases "validateConfigWithReflection (Interface x)")
     (simp add: passes_def effects_def split: outcome.split option.split)

lemma handleStruct_Cons_not_nil:
  "IsNil vf = Inr False \<Longrightarrow> IsExported tf \<Longrightarrow>
   handleStruct ((tf, vf) # rest) =
     (if passes vf then after (effects vf) (handleStruct rest)
      else validateConfigWithReflection (Interface vf))"
  by (cases "validateConfigWithReflection (Interface vf)")
     (simp add: passes_def effects_def not_nil_Interface split: outcome.split option.split)

lemma handleStruct_Cons_passes:
  assumes "field_passes f"
  shows "handleStruct (f # rest) = after (field_effects f) (handleStruct rest)"
proof (cases f)
  case (Pair tf vf)
  show ?thesis
  proof (cases "IsNil vf = Inr True")
    case True
    with assms Pair show ?thesis
      by (simp add: field_passes_def field_effects_def)
  next
    case False
    with assms Pair have "IsNil vf = Inr False" "IsExported tf" "passes vf"
      by (auto simp: field_passes_def)
    with Pair show ?thesis
      by (simp add: handleStruct_Cons_not_nil field_effects_def del: handleStruct.simps)
  qed
qed

lemma handleStruct_prefix:
  "\<forall>f\<in>set pre. field_passes f \<Longrightarrow>
   handleStruct (pre @ rest) = after (concat (map field_effects pre)) (handleStruct rest)"
  by (induction pre) (simp_all add: handleStruct_Cons_passes del: handleStruct.simps)

lemma handleArraySlice_loop_prefix:
  "\<forall>x\<in>set pre. passes x \<Longrightarrow>
   handleArraySlice_loop (pre @ rest) = after (concat (map effects pre)) (handleArraySlice_loop rest)"
  by (induction pre) (simp_all add: handleArraySlice_loop_Cons del: handleArraySlice_loop.simps)

lemma handleMap_loop_prefix:
  "\<forall>e\<in>set pre. entry_passes e \<Longrightarrow>
   handleMap_loop (pre @ rest) = after (concat (map (effects \<circ> snd) pre)) (handleMap_loop rest)"
  by (induction pre) (auto simp: handleMap_loop_Cons entry_passes_def simp del: handleMap_loop.simps)

lemma handleArraySlice_loop_all:
  "\<forall>x\<in>set xs. passes x \<Longrightarrow> handleArraySlice_loop xs = (Return None, concat (map effects xs))"
  using handleArraySlice_loop_prefix [of xs "[]"] by simp

lemma handleMap_loop_all:
  "\<forall>e\<in>set m. entry_passes e \<Longrightarrow> handleMap_loop m = (Return None, concat (map (effects \<circ> snd) m))"
  using handleMap_loop_prefix [of m "[]"] by simp

lemma handleStruct_all:
  "\<forall>f\<in>set fs. field_passes f \<Longrightarrow> handleStruct fs = (Return None, concat (map field_effects fs))"
  using handleStruct_prefix [of fs "[]"] by simp

lemma handleArraySlice_loop_first:
  "\<forall>p\<in>set pre. passes p \<Longrightarrow> \<not> passes x \<Longrightarrow>
   handleArraySlice_loop (pre @ x # post) =
     after (concat (map effects pre)) (validateConfigWithReflection (Interface x))"
  by (simp add: handleArraySlice_loop_prefix handleArraySlice_loop_Cons del: handleArraySlice_loop.simps)

lemma handleMap_loop_first:
  "\<forall>e\<in>set pre. entry_passes e \<Longrightarrow> self_equal_slot k \<Longrightarrow> \<not> passes x \<Longrightarrow>
   handleMap_loop (pre @ (k, x) # post) =
     after (concat (map (effects \<circ> snd) pre)) (validateConfigWithReflection (Interface x))"
  by (simp add: handleMap_loop_prefix handleMap_loop_Cons del: handleMap_loop.simps)

lemma handleMap_loop_lost:
  "\<forall>e\<in>set pre. entry_passes e \<Longrightarrow> \<not> self_equal_slot k \<Longrightarrow>
   handleMap_loop (pre @ (k, x) # post) =
     (Panic Interface_of_zero_Value, concat (map (effects \<circ> snd) pre))"
  by (simp add: handleMap_loop_prefix handleMap_loop_Cons del: handleMap_loop.simps)

text \<open>What the loop reads of an entry: whether the lookup finds the key, and the value.\<close>

lemma handleMap_loop_values:
  "map (\<lambda>e. (self_equal_slot (fst e), snd e)) m = map (\<lambda>e. (self_equal_slot (fst e), snd e)) m' \<Longrightarrow>
   handleMap_loop m = handleMap_loop m'"
proof (induction m arbitrary: m')
  case Nil
  then show ?case by simp
next
  case (Cons e m)
  then obtain e' r where m': "m' = e' # r"
    and e: "self_equal_slot (fst e) = self_equal_slot (fst e')" "snd e = snd e'"
    and r: "map (\<lambda>e. (self_equal_slot (fst e), snd e)) m = map (\<lambda>e. (self_equal_slot (fst e), snd e)) r"
    by (cases m') auto
  from Cons.IH [OF r] e show ?case
    unfolding m' by (cases e; cases e') (simp add: handleMap_loop_Cons del: handleMap_loop.simps)
qed

section \<open>Errors coming up through a descent\<close>

lemma in_context_Nil [simp]: "in_context [] out = out"
  by (cases "([] :: step list, out)" rule: in_context.cases) simp_all

lemma in_context_not_None: "out \<noteq> Return None \<Longrightarrow> in_context p out \<noteq> Return None"
  by (cases "(p, out)" rule: in_context.cases) simp_all

lemma in_context_Cons:
  "in_context (s # p) out =
     (case in_context p out of Return (Some e) \<Rightarrow> Return (Some (context_of s @ e)) | r \<Rightarrow> r)"
  by (cases "(p, out)" rule: in_context.cases) simp_all

lemma handlePtr_deref:
  "handlePtr n None (Some s) =
     (in_context [Through_Ptr n] (fst (validateConfigWithReflection (Interface s))),
      snd (validateConfigWithReflection (Interface s)))"
  by (cases "validateConfigWithReflection (Interface s)")
     (simp split: outcome.split option.split)

lemma first_failure_aborts:
  assumes "reaches c p d" and "fst (validateConfigWithReflection d) \<noteq> Return None"
  shows "\<exists>es. validateConfigWithReflection c =
           (in_context p (fst (validateConfigWithReflection d)),
            es @ snd (validateConfigWithReflection d))"
  using assms
proof (induction rule: reaches.induct)
  case (root c)
  show ?case by (rule exI [of _ "[]"]) simp
next
  case (ptr s p c n)
  then obtain es where "validateConfigWithReflection (Interface s) =
      (in_context p (fst (validateConfigWithReflection c)), es @ snd (validateConfigWithReflection c))"
    by blast
  then show ?case
    by (simp add: handlePtr_deref in_context_Cons del: handlePtr.simps split: outcome.split option.split)
next
  case (field pre vf tf p c post)
  then obtain es where inner: "validateConfigWithReflection (Interface vf) =
      (in_context p (fst (validateConfigWithReflection c)), es @ snd (validateConfigWithReflection c))"
    by blast
  with field.prems have "\<not> passes vf"
    by (simp add: passes_def in_context_not_None)
  with field.hyps inner show ?case
    by (simp add: handleStruct_prefix handleStruct_Cons_not_nil in_context_Cons
        del: handleStruct.simps split: outcome.split option.split)
next
  case (slice pre x p c n post)
  then obtain es where inner: "validateConfigWithReflection (Interface x) =
      (in_context p (fst (validateConfigWithReflection c)), es @ snd (validateConfigWithReflection c))"
    by blast
  with slice.prems have "\<not> passes x"
    by (simp add: passes_def in_context_not_None)
  with slice.hyps inner show ?case
    by (simp add: handleArraySlice_loop_first in_context_Cons split: outcome.split option.split)
next
  case (array pre x p c n post)
  then obtain es where inner: "validateConfigWithReflection (Interface x) =
      (in_context p (fst (validateConfigWithReflection c)), es @ snd (validateConfigWithReflection c))"
    by blast
  with array.prems have "\<not> passes x"
    by (simp add: passes_def in_context_not_None)
  with array.hyps inner show ?case
    by (simp add: handleArraySlice_loop_first in_context_Cons split: outcome.split option.split)
next
  case (entry pre k x p c n post)
  then obtain es where inner: "validateConfigWithReflection (Interface x) =
      (in_context p (fst (validateConfigWithReflection c)), es @ snd (validateConfigWithReflection c))"
    by blast
  with entry.prems have "\<not> passes x"
    by (simp add: passes_def in_context_not_None)
  with entry.hyps inner show ?case
    by (simp add: handleMap_loop_first in_context_Cons split: outcome.split option.split)
qed

section \<open>A value alone in its containers\<close>

lemma wrap_failed:
  "failed (validateConfigWithReflection (Some (wrap w v))) =
   failed (validateConfigWithReflection (Some v))"
  by (cases w; cases "validateConfigWithReflection (Some v)")
     (auto simp: failed_def IsExported_def split: outcome.split option.split)

lemma wrap_succeeded:
  "succeeded (validateConfigWithReflection (Some (wrap w v))) =
   succeeded (validateConfigWithReflection (Some v))"
  by (cases w; cases "validateConfigWithReflection (Some v)")
     (auto simp: succeeded_def IsExported_def split: outcome.split option.split)

lemma nest_failed:
  "failed (validateConfigWithReflection (Some (foldr wrap ws v))) =
   failed (validateConfigWithReflection (Some v))"
  by (induction ws) (simp_all add: wrap_failed)

lemma nest_succeeded:
  "succeeded (validateConfigWithReflection (Some (foldr wrap ws v))) =
   succeeded (validateConfigWithReflection (Some v))"
  by (induction ws) (simp_all add: wrap_succeeded)

section \<open>Substrings\<close>


section \<open>Reading a tag in the conventional format\<close>

lemma ValidString_ascii: "list_all (\<lambda>c. byte c < 0x80) s \<Longrightarrow> ValidString s"
proof (induction s)
  case Nil
  show ?case by (simp add: ValidString.simps)
next
  case (Cons c s)
  then have "utf8_size (c # s) = 1" "ValidString s"
    by simp_all
  then show ?case
    by (subst ValidString.simps) simp
qed

lemma closing_plain:
  "list_all (\<lambda>c. c \<noteq> dquote \<and> c \<noteq> backslash) v \<Longrightarrow> closing (v @ dquote # rest) = Some (length v)"
proof (induction v)
  case Nil
  show ?case by (cases rest) simp_all
next
  case (Cons c v)
  then have "closing (v @ dquote # rest) = Some (length v)" "c \<noteq> dquote" "c \<noteq> backslash"
    by simp_all
  moreover obtain d s where "v @ dquote # rest = d # s"
    by (cases "v @ dquote # rest") simp_all
  ultimately show ?case
    by simp
qed

lemma takeWhile_until: "x \<notin> set v \<Longrightarrow> takeWhile (\<lambda>c. c \<noteq> x) (v @ x # r) = v"
  by (induction v) auto

lemma Unquote_plain:
  assumes "plain_value v"
  shows "Unquote (quoted v) = Some v"
proof -
  from assms have no: "dquote \<notin> set v" "backslash \<notin> set v"
    by (auto simp: plain_value_def list_all_iff)
  from assms have "newline \<notin> set v"
    by (auto simp: plain_value_def list_all_iff byte_between_def newline_def byte_def)
  moreover from assms have "ValidString v"
    by (intro ValidString_ascii) (auto simp: plain_value_def list_all_iff byte_between_def)
  moreover from no have "takeWhile (\<lambda>c. c \<noteq> dquote) (v @ [dquote]) = v"
    by (simp add: takeWhile_until)
  ultimately show ?thesis
    using no by (simp add: Unquote_def quoted_def Let_def)
qed

lemma next_pair_space: "next_pair (CHR '' '' # tag) = next_pair tag"
  by (simp add: next_pair_def)

lemma next_pair_plain:
  assumes "plain_key k" and "plain_value v"
  shows "next_pair (k @ '':'' @ quoted v @ rest) = Some (k, quoted v, rest)"
proof -
  let ?tag = "k @ '':'' @ quoted v @ rest"
  from assms(1) obtain c k' where k: "k = c # k'" and c: "name_char c" and k': "list_all name_char k'"
    by (cases k) (auto simp: plain_key_def)
  from c have "c \<noteq> CHR '' ''"
    by (auto simp: name_char_def byte_def)
  then have skip: "dropWhile (\<lambda>c. c = CHR '' '') ?tag = ?tag"
    by (simp add: k)
  have colon: "\<not> name_char CHR '':''"
    by (simp add: name_char_def)
  from assms(1) have name: "takeWhile name_char ?tag = k"
    using colon by (simp add: plain_key_def list_all_iff)
  have at: "?tag ! length k = CHR '':''" "?tag ! (length k + 1) = dquote"
    by (simp_all add: nth_append quoted_def)
  have len: "length k + 1 < length ?tag"
    by (simp add: quoted_def)
  have tk: "take (length k) ?tag = k"
    by simp
  have dr: "drop (length k + 1) ?tag = dquote # v @ dquote # rest"
    by (simp add: quoted_def)
  from assms(2) have "closing (v @ dquote # rest) = Some (length v)"
    by (intro closing_plain) (auto simp: plain_value_def list_all_iff)
  with skip name at len tk dr k show ?thesis
    unfolding next_pair_def Let_def by (simp add: quoted_def)
qed

lemma Lookup_space: "Lookup (CHR '' '' # tag) key = Lookup tag key"
  by (subst Lookup.simps, subst (2) Lookup.simps) (simp add: next_pair_space)

lemma Lookup_plain:
  assumes "plain_key k" and "plain_value v"
  shows "Lookup (k @ '':'' @ quoted v @ rest) key = (if key = k then (v, True) else Lookup rest key)"
  using next_pair_plain [OF assms, of rest] Unquote_plain [OF assms(2)]
  by (subst Lookup.simps) simp

lemma Lookup_render:
  "plain ps \<Longrightarrow>
   Lookup (render ps @ rest) key =
     (case map_of ps key of Some v \<Rightarrow> (v, True) | None \<Rightarrow> Lookup rest key)"
proof (induction ps rule: render.induct)
  case 1
  show ?case by simp
next
  case (2 k v)
  then have "plain_key k" "plain_value v"
    by (simp_all add: plain_def)
  from Lookup_plain [OF this, of rest key] show ?case
    by simp
next
  case (3 k v p ps)
  then have kv: "plain_key k" "plain_value v" and rest: "plain (p # ps)"
    by (simp_all add: plain_def)
  from Lookup_plain [OF kv, of "'' '' @ render (p # ps) @ rest" key] "3.IH" [OF rest]
  show ?case
    by (simp add: Lookup_space)
qed

lemma Lookup_malformed: "next_pair tag = None \<Longrightarrow> Lookup tag key = ([], False)"
  by (subst Lookup.simps) simp

lemma Get_empty [simp]: "Get [] key = []"
  by (simp add: Get_def Lookup_malformed next_pair_def)

section \<open>Examples\<close>

text \<open>The tags of the examples, written as \<^verbatim>\<open>key:"value"\<close> pairs.\<close>

lemma Get_render:
  "plain ps \<Longrightarrow> Get (render ps) key = (case map_of ps key of Some v \<Rightarrow> v | None \<Rightarrow> [])"
  using Lookup_render [of ps "[]" key]
  by (simp add: Get_def Lookup_malformed next_pair_def split: option.splits)

lemma plain_examples:
  "plain [(''remoteconfig'', ''optional'')]"
  "plain [(''json'', ''tags'')]"
  by code_simp+

declare render.simps [simp del]

lemmas example_simps =
  field_passes_def field_effects_def passes_def effects_def entry_passes_def readTags_def
  Get_render plain_examples IsExported_def handleString_def

text \<open>The descent of the second end-to-end example: Servers, its pointer, element 0, Host, its pointer.\<close>

lemma reaches_Host_example:
  "reaches
     (Some (VStruct
        [(\<lparr>Name = ''Name'', PkgPath = [], Tag = []\<rparr>,
            Direct (VPtr ''string'' None (Some (Direct (VString Predeclared ''ok'')))))
        ,(\<lparr>Name = ''Servers'', PkgPath = [], Tag = []\<rparr>,
            Direct (VPtr '''' None (Some (Direct (VSlice '''' (Some
              [Direct (VStruct
                 [(\<lparr>Name = ''Host'', PkgPath = [], Tag = []\<rparr>,
                   Direct (VPtr ''string'' None (Some (Direct (VString Predeclared '''')))))])]))))))]))
     [Through_Field ''Servers'', Through_Ptr '''', Through_Index 0, Through_Field ''Host'',
      Through_Ptr ''string'']
     (Some (VString Predeclared ''''))"
proof -
  let ?s = "VString Predeclared ''''"
  let ?host = "(\<lparr>Name = ''Host'', PkgPath = [], Tag = []\<rparr>, Direct (VPtr ''string'' None (Some (Direct ?s))))"
  let ?name = "(\<lparr>Name = ''Name'', PkgPath = [], Tag = []\<rparr>,
      Direct (VPtr ''string'' None (Some (Direct (VString Predeclared ''ok'')))))"
  have 1: "reaches (Some (VPtr ''string'' None (Some (Direct ?s)))) [Through_Ptr ''string''] (Some ?s)"
    using reaches.ptr [of "Direct ?s" "[]" "Some ?s" "''string''"] reaches.root [of "Some ?s"]
    by simp
  have 2: "reaches (Some (VStruct [?host])) [Through_Field ''Host'', Through_Ptr ''string''] (Some ?s)"
    using reaches.field [of "[]" "snd ?host" "fst ?host" _ _ "[]"] 1
    by (simp add: IsExported_def)
  have 3: "reaches (Some (VSlice '''' (Some [Direct (VStruct [?host])])))
      [Through_Index 0, Through_Field ''Host'', Through_Ptr ''string''] (Some ?s)"
    using reaches.slice [of "[]" "Direct (VStruct [?host])" _ _ "''''" "[]"] 2
    by simp
  have 4: "reaches (Some (VPtr '''' None (Some (Direct (VSlice '''' (Some [Direct (VStruct [?host])]))))))
      [Through_Ptr '''', Through_Index 0, Through_Field ''Host'', Through_Ptr ''string''] (Some ?s)"
    using reaches.ptr [of "Direct (VSlice '''' (Some [Direct (VStruct [?host])]))" _ _ "''''"] 3
    by simp
  have "field_passes ?name"
    by (simp add: example_simps)
  then show ?thesis
    using reaches.field [of "[?name]"
        "Direct (VPtr '''' None (Some (Direct (VSlice '''' (Some [Direct (VStruct [?host])])))))"
        "\<lparr>Name = ''Servers'', PkgPath = [], Tag = []\<rparr>" _ _ "[]"] 4
    by (simp add: IsExported_def)
qed

lemma reaches_Port_example:
  "reaches
     (Some (VPtr ''Config'' None (Some (Direct (VStruct
        [(\<lparr>Name = ''Server'', PkgPath = [], Tag = []\<rparr>,
            Direct (VPtr ''Server'' None (Some (Direct (VStruct
              [(\<lparr>Name = ''Port'', PkgPath = [], Tag = []\<rparr>, Direct (VPtr ''int'' None None))])))))])))))
     [Through_Ptr ''Config'', Through_Field ''Server'', Through_Ptr ''Server'']
     (Some (VStruct [(\<lparr>Name = ''Port'', PkgPath = [], Tag = []\<rparr>, Direct (VPtr ''int'' None None))]))"
proof -
  let ?d = "VStruct [(\<lparr>Name = ''Port'', PkgPath = [], Tag = []\<rparr>, Direct (VPtr ''int'' None None))]"
  have 1: "reaches (Some (VPtr ''Server'' None (Some (Direct ?d)))) [Through_Ptr ''Server''] (Some ?d)"
    using reaches.ptr [of "Direct ?d" "[]" "Some ?d" "''Server''"] reaches.root [of "Some ?d"]
    by simp
  have 2: "reaches (Some (VStruct [(\<lparr>Name = ''Server'', PkgPath = [], Tag = []\<rparr>,
        Direct (VPtr ''Server'' None (Some (Direct ?d))))]))
      [Through_Field ''Server'', Through_Ptr ''Server''] (Some ?d)"
    using reaches.field [of "[]" "Direct (VPtr ''Server'' None (Some (Direct ?d)))"
        "\<lparr>Name = ''Server'', PkgPath = [], Tag = []\<rparr>" _ _ "[]"] 1
    by (simp add: IsExported_def)
  show ?thesis
    using reaches.ptr [of "Direct (VStruct [(\<lparr>Name = ''Server'', PkgPath = [], Tag = []\<rparr>,
        Direct (VPtr ''Server'' None (Some (Direct ?d))))])" _ _ "''Config''"] 2
    by simp
qed

section \<open>Records\<close>

text \<open>
  C1. The fields of a record are handled in declaration order, each once, as long as
  every field before lets the loop go on. For the field \<open>(typeField, valueField)\<close>
  that comes after such fields:
  \<^item> nil and tagged optional: it is skipped, the record validates as if the field
    were not declared;
  \<^item> nil and not tagged optional: the result is the error
    \<^verbatim>\<open>Field: <name>, not set\<close>, whatever the later fields are;
  \<^item> not nil, exported, and its value fails in the dispatcher (an error or a panic):
    that failure is the result, unchanged, whatever the later fields are;
  \<^item> not nil, exported, and its value passes: the loop goes on with the later fields.

  When all fields let the loop go on the record is valid. The third and fourth case
  need the field to be exported: see the record with an unexported field below.
\<close>

theorem record_fields_in_declaration_order:
  "(\<forall>f\<in>set pre. field_passes f) \<longrightarrow>
     (IsNil valueField = Inr True \<and> Optional (readTags typeField) \<longrightarrow>
        validateConfigWithReflection (Some (VStruct (pre @ (typeField, valueField) # post))) =
        validateConfigWithReflection (Some (VStruct (pre @ post))))
   \<and> (IsNil valueField = Inr True \<and> \<not> Optional (readTags typeField) \<longrightarrow>
        validateConfigWithReflection (Some (VStruct (pre @ (typeField, valueField) # post))) =
          (Return (Some (''Field: '' @ Name typeField @ '', not set'')),
           concat (map field_effects pre)))
   \<and> (IsNil valueField = Inr False \<and> IsExported typeField \<and> \<not> passes valueField \<longrightarrow>
        validateConfigWithReflection (Some (VStruct (pre @ (typeField, valueField) # post))) =
          after (concat (map field_effects pre))
            (validateConfigWithReflection (Interface valueField)))
   \<and> (IsNil valueField = Inr False \<and> IsExported typeField \<and> passes valueField \<longrightarrow>
        validateConfigWithReflection (Some (VStruct (pre @ (typeField, valueField) # post))) =
          after (concat (map field_effects pre) @ effects valueField) (handleStruct post))
   \<and> validateConfigWithReflection (Some (VStruct pre)) =
        (Return None, concat (map field_effects pre))"
proof (rule impI)
  assume pre: "\<forall>f\<in>set pre. field_passes f"
  note split = handleStruct_prefix [OF pre]
  have skipped: "validateConfigWithReflection (Some (VStruct (pre @ (typeField, valueField) # post))) =
      validateConfigWithReflection (Some (VStruct (pre @ post)))"
    if "IsNil valueField = Inr True" "Optional (readTags typeField)"
    using that by (simp add: split)
  have not_set: "validateConfigWithReflection (Some (VStruct (pre @ (typeField, valueField) # post))) =
      (Return (Some (''Field: '' @ Name typeField @ '', not set'')), concat (map field_effects pre))"
    if "IsNil valueField = Inr True" "\<not> Optional (readTags typeField)"
    using that by (simp add: split)
  have fails: "validateConfigWithReflection (Some (VStruct (pre @ (typeField, valueField) # post))) =
      after (concat (map field_effects pre)) (validateConfigWithReflection (Interface valueField))"
    if "IsNil valueField = Inr False" "IsExported typeField" "\<not> passes valueField"
    using that by (simp add: split handleStruct_Cons_not_nil del: handleStruct.simps)
  have continues: "validateConfigWithReflection (Some (VStruct (pre @ (typeField, valueField) # post))) =
      after (concat (map field_effects pre) @ effects valueField) (handleStruct post)"
    if "IsNil valueField = Inr False" "IsExported typeField" "passes valueField"
    using that by (simp add: split handleStruct_Cons_not_nil del: handleStruct.simps)
  have all: "validateConfigWithReflection (Some (VStruct pre)) =
      (Return None, concat (map field_effects pre))"
    using handleStruct_all [OF pre] by simp
  from skipped not_set fails continues all
  show "(IsNil valueField = Inr True \<and> Optional (readTags typeField) \<longrightarrow>
        validateConfigWithReflection (Some (VStruct (pre @ (typeField, valueField) # post))) =
        validateConfigWithReflection (Some (VStruct (pre @ post))))
   \<and> (IsNil valueField = Inr True \<and> \<not> Optional (readTags typeField) \<longrightarrow>
        validateConfigWithReflection (Some (VStruct (pre @ (typeField, valueField) # post))) =
          (Return (Some (''Field: '' @ Name typeField @ '', not set'')),
           concat (map field_effects pre)))
   \<and> (IsNil valueField = Inr False \<and> IsExported typeField \<and> \<not> passes valueField \<longrightarrow>
        validateConfigWithReflection (Some (VStruct (pre @ (typeField, valueField) # post))) =
          after (concat (map field_effects pre))
            (validateConfigWithReflection (Interface valueField)))
   \<and> (IsNil valueField = Inr False \<and> IsExported typeField \<and> passes valueField \<longrightarrow>
        validateConfigWithReflection (Some (VStruct (pre @ (typeField, valueField) # post))) =
          after (concat (map field_effects pre) @ effects valueField) (handleStruct post))
   \<and> validateConfigWithReflection (Some (VStruct pre)) =
        (Return None, concat (map field_effects pre))"
    by blast
qed

theorem record_fields_in_declaration_order_witness:
  "validateConfigWithReflection (Some (VStruct
      [(\<lparr>Name = ''Name'', PkgPath = [], Tag = []\<rparr>,
          Direct (VPtr ''string'' None (Some (Direct (VString Predeclared '''')))))
      ,(\<lparr>Name = ''Tags'', PkgPath = [], Tag = render [(''remoteconfig'', ''optional'')]\<rparr>,
          Direct (VPtr '''' None None))
      ,(\<lparr>Name = ''Servers'', PkgPath = [], Tag = []\<rparr>,
          Direct (VPtr '''' None (Some (Direct (VSlice '''' (Some [])))))) ])) =
     (Return (Some (''Sub Field of string, failed to validate with error, '' @
                    ''String Field: string, contains an empty string'')), [])
   \<and> validateConfigWithReflection (Some (VStruct
      [(\<lparr>Name = ''Name'', PkgPath = [], Tag = []\<rparr>,
          Direct (VPtr ''string'' None (Some (Direct (VString Predeclared ''ok'')))))
      ,(\<lparr>Name = ''Tags'', PkgPath = [], Tag = render [(''remoteconfig'', ''optional'')]\<rparr>,
          Direct (VPtr '''' None None))
      ,(\<lparr>Name = ''Servers'', PkgPath = [], Tag = []\<rparr>,
          Direct (VPtr '''' None (Some (Direct (VSlice '''' (Some [])))))) ])) =
     validateConfigWithReflection (Some (VStruct
      [(\<lparr>Name = ''Name'', PkgPath = [], Tag = []\<rparr>,
          Direct (VPtr ''string'' None (Some (Direct (VString Predeclared ''ok'')))))
      ,(\<lparr>Name = ''Servers'', PkgPath = [], Tag = []\<rparr>,
          Direct (VPtr '''' None (Some (Direct (VSlice '''' (Some [])))))) ]))
   \<and> validateConfigWithReflection (Some (VStruct
      [(\<lparr>Name = ''Name'', PkgPath = [], Tag = []\<rparr>,
          Direct (VPtr ''string'' None (Some (Direct (VString Predeclared ''ok'')))))
      ,(\<lparr>Name = ''Tags'', PkgPath = [], Tag = render [(''json'', ''tags'')]\<rparr>,
          Direct (VPtr '''' None None))
      ,(\<lparr>Name = ''Servers'', PkgPath = [], Tag = []\<rparr>,
          Direct (VPtr '''' None (Some (Direct (VSlice '''' (Some [])))))) ])) =
     (Return (Some ''Field: Tags, not set''), [])
   \<and> validateConfigWithReflection (Some (VStruct
      [(\<lparr>Name = ''Name'', PkgPath = [], Tag = []\<rparr>,
          Direct (VPtr ''string'' None (Some (Direct (VString Predeclared ''ok'')))))
      ,(\<lparr>Name = ''Tags'', PkgPath = [], Tag = render [(''remoteconfig'', ''optional'')]\<rparr>,
          Direct (VPtr '''' None None)) ])) =
     (Return None, [])"
  using
    record_fields_in_declaration_order [where pre = "[]"
      and typeField = "\<lparr>Name = ''Name'', PkgPath = [], Tag = []\<rparr>"
      and valueField = "Direct (VPtr ''string'' None (Some (Direct (VString Predeclared ''''))))"
      and post = "[(\<lparr>Name = ''Tags'', PkgPath = [], Tag = render [(''remoteconfig'', ''optional'')]\<rparr>,
          Direct (VPtr '''' None None))
      ,(\<lparr>Name = ''Servers'', PkgPath = [], Tag = []\<rparr>,
          Direct (VPtr '''' None (Some (Direct (VSlice '''' (Some [])))))) ]"]
    record_fields_in_declaration_order [where pre = "[(\<lparr>Name = ''Name'', PkgPath = [], Tag = []\<rparr>,
          Direct (VPtr ''string'' None (Some (Direct (VString Predeclared ''ok'')))))]"
      and typeField = "\<lparr>Name = ''Tags'', PkgPath = [], Tag = render [(''remoteconfig'', ''optional'')]\<rparr>"
      and valueField = "Direct (VPtr '''' None None)"
      and post = "[(\<lparr>Name = ''Servers'', PkgPath = [], Tag = []\<rparr>,
          Direct (VPtr '''' None (Some (Direct (VSlice '''' (Some [])))))) ]"]
    record_fields_in_declaration_order [where pre = "[(\<lparr>Name = ''Name'', PkgPath = [], Tag = []\<rparr>,
          Direct (VPtr ''string'' None (Some (Direct (VString Predeclared ''ok'')))))]"
      and typeField = "\<lparr>Name = ''Tags'', PkgPath = [], Tag = render [(''json'', ''tags'')]\<rparr>"
      and valueField = "Direct (VPtr '''' None None)"
      and post = "[(\<lparr>Name = ''Servers'', PkgPath = [], Tag = []\<rparr>,
          Direct (VPtr '''' None (Some (Direct (VSlice '''' (Some [])))))) ]"]
    record_fields_in_declaration_order [where pre = "[(\<lparr>Name = ''Name'', PkgPath = [], Tag = []\<rparr>,
          Direct (VPtr ''string'' None (Some (Direct (VString Predeclared ''ok'')))))
      ,(\<lparr>Name = ''Tags'', PkgPath = [], Tag = render [(''remoteconfig'', ''optional'')]\<rparr>,
          Direct (VPtr '''' None None)) ]"
      and typeField = "\<lparr>Name = ''X'', PkgPath = [], Tag = []\<rparr>"
      and valueField = "Direct (VPtr '''' None None)"
      and post = "[]"]
  by (simp add: example_simps)

text \<open>
  A field that is not nil but not exported is not handed to the dispatcher:
  \<^verbatim>\<open>valueOf.Field(i).Interface()\<close> panics on a value obtained from an unexported field.
  Here the field holds a pointer to the valid string \<^verbatim>\<open>"ok"\<close>.
\<close>

theorem unexported_field_counterexample:
  "IsNil (Direct (VPtr ''string'' None (Some (Direct (VString Predeclared ''ok''))))) = Inr False
   \<and> validateConfigWithReflection
       (Interface (Direct (VPtr ''string'' None (Some (Direct (VString Predeclared ''ok''))))))
     = (Return None, [])
   \<and> validateConfigWithReflection (Some (VStruct
       [(\<lparr>Name = ''name'', PkgPath = ''main'', Tag = []\<rparr>,
         Direct (VPtr ''string'' None (Some (Direct (VString Predeclared ''ok'')))))]))
     = (Panic Interface_of_unexported_field, [])"
  by (simp add: example_simps)

text \<open>
  C10. A field whose kind cannot be nil (a bare boolean, number, string, struct or
  array), reached by the loop because every field before lets it go on, makes the
  record handler panic in \<^verbatim>\<open>IsNil()\<close>, tagged optional or not; the field is neither
  skipped nor validated, and no error is returned.
\<close>

theorem non_nilable_field_faults:
  "(\<forall>f\<in>set pre. field_passes f) \<and>
   Kind_of_slot valueField \<in> {reflect_Bool, reflect_Int, reflect_Uint, reflect_Float,
     reflect_Complex, reflect_Array, reflect_String, reflect_Struct}
   \<longrightarrow> validateConfigWithReflection (Some (VStruct (pre @ (typeField, valueField) # post))) =
         (Panic (IsNil_of_kind (Kind_of_slot valueField)), concat (map field_effects pre))"
proof (intro impI, elim conjE)
  assume pre: "\<forall>f\<in>set pre. field_passes f"
    and kind: "Kind_of_slot valueField \<in> {reflect_Bool, reflect_Int, reflect_Uint, reflect_Float,
      reflect_Complex, reflect_Array, reflect_String, reflect_Struct}"
  from kind have "IsNil valueField = Inl (IsNil_of_kind (Kind_of_slot valueField))"
    by (cases valueField rule: IsNil.cases) auto
  then show "validateConfigWithReflection (Some (VStruct (pre @ (typeField, valueField) # post))) =
      (Panic (IsNil_of_kind (Kind_of_slot valueField)), concat (map field_effects pre))"
    by (simp add: handleStruct_prefix [OF pre])
qed

theorem non_nilable_field_faults_witness:
  "validateConfigWithReflection (Some (VStruct
      [(\<lparr>Name = ''Name'', PkgPath = [], Tag = []\<rparr>,
          Direct (VPtr ''string'' None (Some (Direct (VString Predeclared ''ok'')))))
      ,(\<lparr>Name = ''Port'', PkgPath = [], Tag = render [(''remoteconfig'', ''optional'')]\<rparr>,
          Direct (VInt 8080))
      ,(\<lparr>Name = ''Host'', PkgPath = [], Tag = []\<rparr>, Direct (VPtr ''string'' None None)) ])) =
     (Panic (IsNil_of_kind reflect_Int), [])
   \<and> validateConfigWithReflection (Some (VStruct
      [(\<lparr>Name = ''Host'', PkgPath = [], Tag = []\<rparr>, Direct (VString Predeclared ''h''))])) =
     (Panic (IsNil_of_kind reflect_String), [])"
  using
    non_nilable_field_faults [where pre = "[(\<lparr>Name = ''Name'', PkgPath = [], Tag = []\<rparr>,
          Direct (VPtr ''string'' None (Some (Direct (VString Predeclared ''ok'')))))]"
      and typeField = "\<lparr>Name = ''Port'', PkgPath = [], Tag = render [(''remoteconfig'', ''optional'')]\<rparr>"
      and valueField = "Direct (VInt 8080)"
      and post = "[(\<lparr>Name = ''Host'', PkgPath = [], Tag = []\<rparr>, Direct (VPtr ''string'' None None))]"]
    non_nilable_field_faults [where pre = "[]"
      and typeField = "\<lparr>Name = ''Host'', PkgPath = [], Tag = []\<rparr>"
      and valueField = "Direct (VString Predeclared ''h'')"
      and post = "[]"]
  by (simp add: example_simps)

text \<open>
  Without the condition on the earlier fields the panic need not happen: a required
  nil field before the bare field ends the loop with an error.
\<close>

theorem earlier_failure_counterexample:
  "Kind_of_slot (Direct (VString Predeclared ''h'')) = reflect_String
   \<and> validateConfigWithReflection (Some (VStruct
      [(\<lparr>Name = ''Name'', PkgPath = [], Tag = []\<rparr>, Direct (VPtr ''string'' None None))
      ,(\<lparr>Name = ''Host'', PkgPath = [], Tag = []\<rparr>, Direct (VString Predeclared ''h''))])) =
     (Return (Some ''Field: Name, not set''), [])"
  by (simp add: example_simps)

section \<open>Pointers with a custom validator\<close>

text \<open>
  C2. For a non-nil pointer whose type implements \<^verbatim>\<open>Validater\<close>, the engine calls
  \<^verbatim>\<open>Validate()\<close> once and does nothing else: a nil result is success, a non-nil result
  is the error \<^verbatim>\<open>Validater Field: <type name>, failed to validate with error, <err>\<close>.
  The value pointed to is not looked at: the result is the same for every target \<open>s\<close>.
\<close>

theorem validater_is_authoritative:
  "validateConfigWithReflection (Some (VPtr n (Some (Returns None)) (Some s))) =
     (Return None, [Validate_called n])
   \<and> validateConfigWithReflection (Some (VPtr n (Some (Returns (Some err))) (Some s))) =
     (Return (Some (''Validater Field: '' @ n @ '', failed to validate with error, '' @ err)),
      [Validate_called n])"
  by simp

theorem validater_is_authoritative_witness:
  "fst (validateConfigWithReflection
     (Some (VStruct [(\<lparr>Name = ''Host'', PkgPath = [], Tag = []\<rparr>, Direct (VPtr ''string'' None None))])))
     = Return (Some ''Field: Host, not set'')
   \<and> validateConfigWithReflection (Some (VPtr ''Server'' (Some (Returns None))
       (Some (Direct (VStruct [(\<lparr>Name = ''Host'', PkgPath = [], Tag = []\<rparr>,
          Direct (VPtr ''string'' None None))])))))
     = (Return None, [Validate_called ''Server''])
   \<and> fst (validateConfigWithReflection
     (Some (VStruct [(\<lparr>Name = ''Host'', PkgPath = [], Tag = []\<rparr>,
        Direct (VPtr ''string'' None (Some (Direct (VString Predeclared ''h'')))))])))
     = Return None
   \<and> validateConfigWithReflection (Some (VPtr ''Server'' (Some (Returns (Some ''bad port'')))
       (Some (Direct (VStruct [(\<lparr>Name = ''Host'', PkgPath = [], Tag = []\<rparr>,
          Direct (VPtr ''string'' None (Some (Direct (VString Predeclared ''h'')))))])))))
     = (Return (Some ''Validater Field: Server, failed to validate with error, bad port''),
        [Validate_called ''Server''])"
  using validater_is_authoritative [of "''Server''"
      "Direct (VStruct [(\<lparr>Name = ''Host'', PkgPath = [], Tag = []\<rparr>, Direct (VPtr ''string'' None None))])"]
    validater_is_authoritative [of "''Server''"
      "Direct (VStruct [(\<lparr>Name = ''Host'', PkgPath = [], Tag = []\<rparr>,
        Direct (VPtr ''string'' None (Some (Direct (VString Predeclared ''h'')))))])" "''bad port''"]
  by (simp add: readTags_def IsExported_def handleString_def)

section \<open>Sequences and mappings\<close>

text \<open>
  C3. A slice or array of length zero (a nil slice included) fails with
  \<^verbatim>\<open>Slice/Array Field: <type name>, is empty\<close>. Otherwise the elements are validated in
  index order: when the elements \<open>pre\<close> pass and the next one \<open>x\<close> does not, the result
  is the failure of \<open>x\<close>, and only \<open>pre\<close> and \<open>x\<close> have been validated; when all pass
  the sequence is valid. (The handler first prints the sequence.)
  A map with no entry (a nil map included) fails with \<^verbatim>\<open>Map Field: <type name>, is empty\<close>.
  Otherwise the values are looked up and validated in the order of the keys, with the
  same rule, as long as each key is equal to itself so that the lookup finds its
  value. The keys are not validated: two maps whose entries agree, one by one, in the
  value and in whether the key is equal to itself have the same result.
\<close>

theorem sequences_and_mappings:
  "validateConfigWithReflection (Some (VSlice n None)) =
     (Return (Some (''Slice/Array Field: '' @ n @ '', is empty'')), [Printf_slice n []])
   \<and> validateConfigWithReflection (Some (VSlice n (Some []))) =
     (Return (Some (''Slice/Array Field: '' @ n @ '', is empty'')), [Printf_slice n []])
   \<and> validateConfigWithReflection (Some (VArray n [])) =
     (Return (Some (''Slice/Array Field: '' @ n @ '', is empty'')), [Printf_slice n []])
   \<and> ((\<forall>p\<in>set pre. passes p) \<and> \<not> passes x \<longrightarrow>
        validateConfigWithReflection (Some (VSlice n (Some (pre @ x # post)))) =
          after (Printf_slice n (pre @ x # post) # concat (map effects pre))
            (validateConfigWithReflection (Interface x))
        \<and> validateConfigWithReflection (Some (VArray n (pre @ x # post))) =
          after (Printf_slice n (pre @ x # post) # concat (map effects pre))
            (validateConfigWithReflection (Interface x)))
   \<and> ((\<forall>p\<in>set xs. passes p) \<and> xs \<noteq> [] \<longrightarrow>
        validateConfigWithReflection (Some (VSlice n (Some xs))) =
          (Return None, Printf_slice n xs # concat (map effects xs))
        \<and> validateConfigWithReflection (Some (VArray n xs)) =
          (Return None, Printf_slice n xs # concat (map effects xs)))
   \<and> validateConfigWithReflection (Some (VMap n None)) =
     (Return (Some (''Map Field: '' @ n @ '', is empty'')), [])
   \<and> validateConfigWithReflection (Some (VMap n (Some []))) =
     (Return (Some (''Map Field: '' @ n @ '', is empty'')), [])
   \<and> ((\<forall>e\<in>set mpre. entry_passes e) \<and> self_equal_slot k \<and> \<not> passes y \<longrightarrow>
        validateConfigWithReflection (Some (VMap n (Some (mpre @ (k, y) # mpost)))) =
          after (concat (map (effects \<circ> snd) mpre)) (validateConfigWithReflection (Interface y)))
   \<and> ((\<forall>e\<in>set m. entry_passes e) \<and> m \<noteq> [] \<longrightarrow>
        validateConfigWithReflection (Some (VMap n (Some m))) =
          (Return None, concat (map (effects \<circ> snd) m)))
   \<and> (map (\<lambda>e. (self_equal_slot (fst e), snd e)) m = map (\<lambda>e. (self_equal_slot (fst e), snd e)) m' \<longrightarrow>
        validateConfigWithReflection (Some (VMap n (Some m))) =
        validateConfigWithReflection (Some (VMap n (Some m'))))"
proof -
  have empty: "validateConfigWithReflection (Some (VSlice n None)) =
      (Return (Some (''Slice/Array Field: '' @ n @ '', is empty'')), [Printf_slice n []])"
    "validateConfigWithReflection (Some (VSlice n (Some []))) =
      (Return (Some (''Slice/Array Field: '' @ n @ '', is empty'')), [Printf_slice n []])"
    "validateConfigWithReflection (Some (VArray n [])) =
      (Return (Some (''Slice/Array Field: '' @ n @ '', is empty'')), [Printf_slice n []])"
    "validateConfigWithReflection (Some (VMap n None)) =
      (Return (Some (''Map Field: '' @ n @ '', is empty'')), [])"
    "validateConfigWithReflection (Some (VMap n (Some []))) =
      (Return (Some (''Map Field: '' @ n @ '', is empty'')), [])"
    by simp_all
  have first: "validateConfigWithReflection (Some (VSlice n (Some (pre @ x # post)))) =
        after (Printf_slice n (pre @ x # post) # concat (map effects pre))
          (validateConfigWithReflection (Interface x))"
      "validateConfigWithReflection (Some (VArray n (pre @ x # post))) =
        after (Printf_slice n (pre @ x # post) # concat (map effects pre))
          (validateConfigWithReflection (Interface x))"
    if "\<forall>p\<in>set pre. passes p" "\<not> passes x"
    using handleArraySlice_loop_first [OF that, of post] by simp_all
  have all: "validateConfigWithReflection (Some (VSlice n (Some xs))) =
        (Return None, Printf_slice n xs # concat (map effects xs))"
      "validateConfigWithReflection (Some (VArray n xs)) =
        (Return None, Printf_slice n xs # concat (map effects xs))"
    if "\<forall>p\<in>set xs. passes p" "xs \<noteq> []"
    using handleArraySlice_loop_all [OF that(1)] that(2) by simp_all
  have mfirst: "validateConfigWithReflection (Some (VMap n (Some (mpre @ (k, y) # mpost)))) =
        after (concat (map (effects \<circ> snd) mpre)) (validateConfigWithReflection (Interface y))"
    if "\<forall>e\<in>set mpre. entry_passes e" "self_equal_slot k" "\<not> passes y"
    using handleMap_loop_first [OF that, of mpost] by simp
  have mall: "validateConfigWithReflection (Some (VMap n (Some m))) =
        (Return None, concat (map (effects \<circ> snd) m))"
    if "\<forall>e\<in>set m. entry_passes e" "m \<noteq> []"
    using handleMap_loop_all [OF that(1)] that(2) by simp
  have keyfree: "validateConfigWithReflection (Some (VMap n (Some m))) =
        validateConfigWithReflection (Some (VMap n (Some m')))"
    if "map (\<lambda>e. (self_equal_slot (fst e), snd e)) m = map (\<lambda>e. (self_equal_slot (fst e), snd e)) m'"
  proof -
    from that have "length m = length m'"
      using length_map by metis
    with handleMap_loop_values [OF that] show ?thesis by simp
  qed
  from empty first all mfirst mall keyfree show ?thesis
    by blast
qed

theorem sequences_and_mappings_witness:
  "validateConfigWithReflection (Some (VSlice ''Hosts''
      (Some [Iface (Some (VString Predeclared ''a'')),
             Iface (Some (VMap '''' (Some []))),
             Iface (Some (VString Predeclared ''''))]))) =
     (Return (Some ''Map Field: , is empty''),
      [Printf_slice ''Hosts''
         [Iface (Some (VString Predeclared ''a'')),
          Iface (Some (VMap '''' (Some []))),
          Iface (Some (VString Predeclared ''''))]])
   \<and> validateConfigWithReflection (Some (VArray ''Hosts''
      [Iface (Some (VString Predeclared '''')), Iface (Some (VMap '''' (Some [])))])) =
     (Return (Some ''String Field: string, contains an empty string''),
      [Printf_slice ''Hosts''
         [Iface (Some (VString Predeclared '''')), Iface (Some (VMap '''' (Some [])))]])
   \<and> validateConfigWithReflection (Some (VSlice ''Hosts''
      (Some [Direct (VString Predeclared ''a''), Direct (VString Predeclared ''b'')]))) =
     (Return None,
      [Printf_slice ''Hosts'' [Direct (VString Predeclared ''a''), Direct (VString Predeclared ''b'')]])
   \<and> validateConfigWithReflection (Some (VMap ''Env''
      (Some [(Direct (VString Predeclared ''''), Iface (Some (VString Predeclared ''a''))),
             (Direct (VString Predeclared ''k''), Iface (Some (VMap '''' (Some [])))),
             (Direct (VString Predeclared ''l''), Iface (Some (VString Predeclared '''')))]))) =
     (Return (Some ''Map Field: , is empty''), [])
   \<and> validateConfigWithReflection (Some (VMap ''Env''
      (Some [(Direct (VString Predeclared ''''), Direct (VString Predeclared ''a''))]))) =
     (Return None, [])
   \<and> validateConfigWithReflection (Some (VMap ''Env''
      (Some [(Direct (VString Predeclared ''''), Direct (VString Predeclared ''a''))]))) =
     validateConfigWithReflection (Some (VMap ''Env''
      (Some [(Direct (VInt 7), Direct (VString Predeclared ''a''))])))"
  using
    sequences_and_mappings [where n = "''Hosts''"
      and pre = "[Iface (Some (VString Predeclared ''a''))]"
      and x = "Iface (Some (VMap '''' (Some [])))"
      and post = "[Iface (Some (VString Predeclared ''''))]"
      and xs = "[Direct (VString Predeclared ''a''), Direct (VString Predeclared ''b'')]"
      and mpre = "[]" and k = "Direct (VInt 0)" and m = "[]" and m' = "[]"]
    sequences_and_mappings [where n = "''Hosts''" and pre = "[]"
      and x = "Iface (Some (VString Predeclared ''''))"
      and post = "[Iface (Some (VMap '''' (Some [])))]"
      and xs = "[]" and mpre = "[]" and k = "Direct (VInt 0)" and m = "[]" and m' = "[]"]
    sequences_and_mappings [where n = "''Env''" and pre = "[]" and xs = "[]"
      and mpre = "[(Direct (VString Predeclared ''''), Iface (Some (VString Predeclared ''a'')))]"
      and k = "Direct (VString Predeclared ''k'')"
      and y = "Iface (Some (VMap '''' (Some [])))"
      and mpost = "[(Direct (VString Predeclared ''l''), Iface (Some (VString Predeclared '''')))]"
      and m = "[(Direct (VString Predeclared ''''), Direct (VString Predeclared ''a''))]"
      and m' = "[(Direct (VInt 7), Direct (VString Predeclared ''a''))]"]
  by (simp add: example_simps)

text \<open>
  A map with a key that is not equal to itself: the value stored for the key
  \<^verbatim>\<open>math.NaN()\<close> of a \<^verbatim>\<open>map[float64]string\<close> is the valid string \<^verbatim>\<open>"a"\<close>, but the lookup
  of the key does not find it and the handler panics; the value is not validated.
\<close>

theorem lost_key_counterexample:
  "validateConfigWithReflection (Interface (Direct (VString Predeclared ''a''))) = (Return None, [])
   \<and> validateConfigWithReflection (Some (VMap ''''
       (Some [(Direct (VFloat NaN), Direct (VString Predeclared ''a''))]))) =
     (Panic Interface_of_zero_Value, [])"
  by (simp add: handleString_def)

section \<open>Strings\<close>

text \<open>
  C4. The dispatcher called on a value of the predeclared type \<^verbatim>\<open>string\<close> fails exactly
  when the string is empty, with \<^verbatim>\<open>String Field: string, contains an empty string\<close>; a
  string of spaces passes. This holds at any depth. A string alone in its containers
  (behind a field's pointer, in a sequence, as a map value), nested as deep as wanted,
  makes the validation of the outermost value fail exactly when it is empty, and
  succeed exactly when it is not. And among other values: an empty string that a
  descent reaches makes the whole validation fail with that error, in the context of
  the pointers passed through.
\<close>

theorem empty_string_fails:
  "validateConfigWithReflection (Some (VString Predeclared s)) =
     (if s = [] then (Return (Some ''String Field: string, contains an empty string''), [])
      else (Return None, []))
   \<and> failed (validateConfigWithReflection (Some (foldr wrap ws (VString Predeclared s)))) = (s = [])
   \<and> succeeded (validateConfigWithReflection (Some (foldr wrap ws (VString Predeclared s)))) = (s \<noteq> [])
   \<and> (reaches c p (Some (VString Predeclared [])) \<longrightarrow>
        fst (validateConfigWithReflection c) =
          Return (Some (concat (map context_of p) @
                        ''String Field: string, contains an empty string'')))"
proof -
  have deep: "fst (validateConfigWithReflection c) =
      Return (Some (concat (map context_of p) @ ''String Field: string, contains an empty string''))"
    if "reaches c p (Some (VString Predeclared []))"
    using first_failure_aborts [OF that] by (auto simp: handleString_def)
  have here: "validateConfigWithReflection (Some (VString Predeclared s)) =
     (if s = [] then (Return (Some ''String Field: string, contains an empty string''), [])
      else (Return None, []))"
    by (simp add: handleString_def)
  have "failed (validateConfigWithReflection (Some (VString Predeclared s))) = (s = [])"
    and "succeeded (validateConfigWithReflection (Some (VString Predeclared s))) = (s \<noteq> [])"
    by (simp_all add: handleString_def failed_def succeeded_def)
  then have nested:
    "failed (validateConfigWithReflection (Some (foldr wrap ws (VString Predeclared s)))) = (s = [])"
    "succeeded (validateConfigWithReflection (Some (foldr wrap ws (VString Predeclared s)))) = (s \<noteq> [])"
    by (simp_all only: nest_failed nest_succeeded)
  from here nested deep show ?thesis
    by blast
qed

theorem empty_string_fails_witness:
  "validateConfigWithReflection (Some (VString Predeclared '' '')) = (Return None, [])
   \<and> validateConfigWithReflection (Some (VString Predeclared '''')) =
       (Return (Some ''String Field: string, contains an empty string''), [])
   \<and> fst (validateConfigWithReflection
       (Some (VStruct
        [(\<lparr>Name = ''Name'', PkgPath = [], Tag = []\<rparr>,
            Direct (VPtr ''string'' None (Some (Direct (VString Predeclared ''ok'')))))
        ,(\<lparr>Name = ''Servers'', PkgPath = [], Tag = []\<rparr>,
            Direct (VPtr '''' None (Some (Direct (VSlice '''' (Some
              [Direct (VStruct
                 [(\<lparr>Name = ''Host'', PkgPath = [], Tag = []\<rparr>,
                   Direct (VPtr ''string'' None (Some (Direct (VString Predeclared '''')))))])]))))))])))
     = Return (Some (''Sub Field of , failed to validate with error, '' @
                     ''Sub Field of string, failed to validate with error, '' @
                     ''String Field: string, contains an empty string''))"
  using empty_string_fails [of "'' ''"] empty_string_fails [of "''''"]
    empty_string_fails [THEN conjunct2, THEN conjunct2, THEN conjunct2, THEN mp,
      OF reaches_Host_example]
  by simp

text \<open>
  A string of a defined type is not validated: the type assertion panics, for the
  string \<^verbatim>\<open>"h"\<close> of \<^verbatim>\<open>type Host string\<close> as for its empty string, bare or behind a pointer
  (where the panic goes up through the pointer handler).
\<close>

theorem defined_string_type_counterexample:
  "validateConfigWithReflection (Some (VString (Defined ''Host'') ''h'')) =
     (Panic (Not_a_string ''Host''), [])
   \<and> validateConfigWithReflection (Some (VString (Defined ''Host'') '''')) =
     (Panic (Not_a_string ''Host''), [])
   \<and> validateConfigWithReflection
       (Some (VPtr ''Host'' None (Some (Direct (VString (Defined ''Host'') ''h''))))) =
     (Panic (Not_a_string ''Host''), [])"
  by (simp add: handleString_def)

section \<open>The error chain\<close>

text \<open>
  C5. When a descent reaches a value on which the dispatcher returns an error \<open>e\<close>,
  the validation of the root returns that error and stops there (nothing happens
  after the effects of the failing call). The message is \<open>e\<close> with the text
  \<^verbatim>\<open>Sub Field of <type name>, failed to validate with error, \<close> in front once for each
  pointer passed through, the outermost first. A record, a sequence or a mapping on
  the way adds nothing.
\<close>

theorem context_added_by_pointers_only:
  "reaches c p d \<and> fst (validateConfigWithReflection d) = Return (Some e) \<longrightarrow>
     (\<exists>es. validateConfigWithReflection c =
        (Return (Some (concat (map context_of p) @ e)), es @ snd (validateConfigWithReflection d)))"
proof (intro impI, elim conjE)
  assume r: "reaches c p d" and e: "fst (validateConfigWithReflection d) = Return (Some e)"
  from e have "fst (validateConfigWithReflection d) \<noteq> Return None" by simp
  from first_failure_aborts [OF r this] e
  show "\<exists>es. validateConfigWithReflection c =
      (Return (Some (concat (map context_of p) @ e)), es @ snd (validateConfigWithReflection d))"
    by simp
qed

theorem context_added_by_pointers_only_witness:
  "validateConfigWithReflection
     (Some (VPtr ''Config'' None (Some (Direct (VStruct
        [(\<lparr>Name = ''Server'', PkgPath = [], Tag = []\<rparr>,
            Direct (VPtr ''Server'' None (Some (Direct (VStruct
              [(\<lparr>Name = ''Port'', PkgPath = [], Tag = []\<rparr>, Direct (VPtr ''int'' None None))])))))])))))
   = (Return (Some (''Sub Field of Config, failed to validate with error, '' @
                    ''Sub Field of Server, failed to validate with error, '' @
                    ''Field: Port, not set'')), [])"
proof -
  have "fst (validateConfigWithReflection
      (Some (VStruct [(\<lparr>Name = ''Port'', PkgPath = [], Tag = []\<rparr>, Direct (VPtr ''int'' None None))])))
    = Return (Some ''Field: Port, not set'')"
    by (simp add: example_simps)
  with reaches_Port_example
    context_added_by_pointers_only [where e = "''Field: Port, not set''"
      and p = "[Through_Ptr ''Config'', Through_Field ''Server'', Through_Ptr ''Server'']"]
  show ?thesis
    by (fastforce simp: example_simps)
qed

text \<open>
  The error of an empty string inside a slice inside the field \<^verbatim>\<open>Tags\<close> of a record is
  the error of the bare string: neither the record nor the slice has added context.
\<close>

theorem record_level_adds_no_context_counterexample:
  "fst (validateConfigWithReflection (Some (VString Predeclared ''''))) =
     Return (Some ''String Field: string, contains an empty string'')
   \<and> fst (validateConfigWithReflection (Some (VStruct
       [(\<lparr>Name = ''Tags'', PkgPath = [], Tag = []\<rparr>,
         Direct (VSlice '''' (Some [Direct (VString Predeclared '''')])))]))) =
     Return (Some ''String Field: string, contains an empty string'')"
  by (simp add: example_simps)

section \<open>Leaf kinds and the nil root\<close>



text \<open>
  C7. A nil pointer whose type does not implement \<^verbatim>\<open>Validater\<close>, passed as the root,
  makes the engine panic: \<^verbatim>\<open>valueOf.Elem()\<close> is the zero \<^verbatim>\<open>reflect.Value\<close> and
  \<^verbatim>\<open>Interface()\<close> panics on it. No error is returned and nothing else happens first.
\<close>

theorem nil_root_pointer_faults:
  "validateConfigWithReflection (Some (VPtr n None None)) = (Panic Interface_of_zero_Value, [])"
  by simp

section \<open>The optional annotation\<close>




section \<open>Download, decode, validate\<close>

text \<open>
  C9. \<^verbatim>\<open>DownloadJSONValidate\<close> returns a transport error, a status other than 200 or a
  decode error without validating: the result is that error whatever the configuration
  holds, also when the decoder left it half written. The configuration is validated
  only after a 200 response and a decode without error, and then the result is the
  result of the validation.
\<close>

theorem fetch_and_decode_before_validation:
  "(http_Get signedURL = Inl err \<longrightarrow>
      DownloadJSONValidate http_Get Decode signedURL configStruct = (Return (Some err), []))
   \<and> (http_Get signedURL = Inr resp \<and> StatusCode resp \<noteq> 200 \<longrightarrow>
      DownloadJSONValidate http_Get Decode signedURL configStruct =
        (Return (Some (''Download of JSON failed, URL = '' @ signedURL @
                       '', Response Code = '' @ itoa (StatusCode resp))), [Body_Close]))
   \<and> (http_Get signedURL = Inr resp \<and> StatusCode resp = 200 \<and>
        Decode (Body resp) configStruct = (Some err, partly) \<longrightarrow>
      DownloadJSONValidate http_Get Decode signedURL configStruct =
        (Return (Some (''Failed to decode JSON, with error, '' @ err)), [Body_Close]))
   \<and> (http_Get signedURL = Inr resp \<and> StatusCode resp = 200 \<and>
        Decode (Body resp) configStruct = (None, decoded) \<longrightarrow>
      DownloadJSONValidate http_Get Decode signedURL configStruct =
        deferred_Close (validateConfigWithReflection decoded))"
  by (simp add: DownloadJSONValidate_def deferred_Close_def)

theorem fetch_and_decode_before_validation_witness:
  "DownloadJSONValidate
      (\<lambda>url. if url = ''down'' then Inl ''dial tcp: i/o timeout''
             else Inr \<lparr>StatusCode = (if url = ''gone'' then 404 else 200), Body = url\<rparr>)
      (\<lambda>body c. if body = ''cut'' then (Some ''unexpected EOF'', Some (VPtr ''Config'' None None))
                 else (None, Some (VPtr ''Config'' None (Some (Direct (VStruct []))))))
      ''down'' (Some (VPtr ''Config'' None None))
     = (Return (Some ''dial tcp: i/o timeout''), [])
   \<and> DownloadJSONValidate
      (\<lambda>url. if url = ''down'' then Inl ''dial tcp: i/o timeout''
             else Inr \<lparr>StatusCode = (if url = ''gone'' then 404 else 200), Body = url\<rparr>)
      (\<lambda>body c. if body = ''cut'' then (Some ''unexpected EOF'', Some (VPtr ''Config'' None None))
                 else (None, Some (VPtr ''Config'' None (Some (Direct (VStruct []))))))
      ''gone'' (Some (VPtr ''Config'' None None))
     = (Return (Some ''Download of JSON failed, URL = gone, Response Code = 404''), [Body_Close])
   \<and> DownloadJSONValidate
      (\<lambda>url. if url = ''down'' then Inl ''dial tcp: i/o timeout''
             else Inr \<lparr>StatusCode = (if url = ''gone'' then 404 else 200), Body = url\<rparr>)
      (\<lambda>body c. if body = ''cut'' then (Some ''unexpected EOF'', Some (VPtr ''Config'' None None))
                 else (None, Some (VPtr ''Config'' None (Some (Direct (VStruct []))))))
      ''cut'' (Some (VPtr ''Config'' None None))
     = (Return (Some ''Failed to decode JSON, with error, unexpected EOF''), [Body_Close])
   \<and> validateConfigWithReflection (Some (VPtr ''Config'' None None)) =
       (Panic Interface_of_zero_Value, [])
   \<and> DownloadJSONValidate
      (\<lambda>url. if url = ''down'' then Inl ''dial tcp: i/o timeout''
             else Inr \<lparr>StatusCode = (if url = ''gone'' then 404 else 200), Body = url\<rparr>)
      (\<lambda>body c. if body = ''cut'' then (Some ''unexpected EOF'', Some (VPtr ''Config'' None None))
                 else (None, Some (VPtr ''Config'' None (Some (Direct (VStruct []))))))
      ''ok'' (Some (VPtr ''Config'' None None))
     = (Return None, [Body_Close])"
  using
    fetch_and_decode_before_validation [where signedURL = "''down''" and err = "''dial tcp: i/o timeout''"
      and configStruct = "Some (VPtr ''Config'' None None)"
      and http_Get = "\<lambda>url. if url = ''down'' then Inl ''dial tcp: i/o timeout''
             else Inr \<lparr>StatusCode = (if url = ''gone'' then 404 else 200), Body = url\<rparr>"
      and Decode = "\<lambda>body c. if body = ''cut'' then (Some ''unexpected EOF'', Some (VPtr ''Config'' None None))
                 else (None, Some (VPtr ''Config'' None (Some (Direct (VStruct [])))))"]
    fetch_and_decode_before_validation [where signedURL = "''gone''"
      and resp = "\<lparr>StatusCode = 404, Body = ''gone''\<rparr>"
      and configStruct = "Some (VPtr ''Config'' None None)"
      and http_Get = "\<lambda>url. if url = ''down'' then Inl ''dial tcp: i/o timeout''
             else Inr \<lparr>StatusCode = (if url = ''gone'' then 404 else 200), Body = url\<rparr>"
      and Decode = "\<lambda>body c. if body = ''cut'' then (Some ''unexpected EOF'', Some (VPtr ''Config'' None None))
                 else (None, Some (VPtr ''Config'' None (Some (Direct (VStruct [])))))"]
    fetch_and_decode_before_validation [where signedURL = "''cut''"
      and resp = "\<lparr>StatusCode = 200, Body = ''cut''\<rparr>"
      and err = "''unexpected EOF''" and partly = "Some (VPtr ''Config'' None None)"
      and configStruct = "Some (VPtr ''Config'' None None)"
      and http_Get = "\<lambda>url. if url = ''down'' then Inl ''dial tcp: i/o timeout''
             else Inr \<lparr>StatusCode = (if url = ''gone'' then 404 else 200), Body = url\<rparr>"
      and Decode = "\<lambda>body c. if body = ''cut'' then (Some ''unexpected EOF'', Some (VPtr ''Config'' None None))
                 else (None, Some (VPtr ''Config'' None (Some (Direct (VStruct [])))))"]
    fetch_and_decode_before_validation [where signedURL = "''ok''"
      and resp = "\<lparr>StatusCode = 200, Body = ''ok''\<rparr>"
      and decoded = "Some (VPtr ''Config'' None (Some (Direct (VStruct []))))"
      and configStruct = "Some (VPtr ''Config'' None None)"
      and http_Get = "\<lambda>url. if url = ''down'' then Inl ''dial tcp: i/o timeout''
             else Inr \<lparr>StatusCode = (if url = ''gone'' then 404 else 200), Body = url\<rparr>"
      and Decode = "\<lambda>body c. if body = ''cut'' then (Some ''unexpected EOF'', Some (VPtr ''Config'' None None))
                 else (None, Some (VPtr ''Config'' None (Some (Direct (VStruct [])))))"]
  by (simp add: itoa_def digits.simps deferred_Close_def)

end
